theory Spec2Isabelle
  imports Main "HOL-Library.Word"
begin

unbundle bit_operations_syntax

section \<open>Data model of the RSI 91x mac80211 glue\<close>

text \<open>
  The development embeds \<^verbatim>\<open>drivers/net/wireless/rsi/rsi_91x_mac80211.c\<close>.
  The driver keeps its state in \<^verbatim>\<open>struct rsi_hw\<close> and \<^verbatim>\<open>struct rsi_common\<close>;
  both are merged into one record that every operation takes and returns. The
  mutex around each operation is not modelled: operations run one after the other.

  Bit-flag words that the driver only tests against, or extends by, single-bit masks
  are sets of named flags. Arrays are functions from the index; their extents are
  declared in headers and are not part of the model.
\<close>

type_synonym u8 = "8 word"
type_synonym s8 = "8 word"
type_synonym u16 = "16 word"
type_synonym u32 = "32 word"
type_synonym s32 = "32 word"

text \<open>A \<^verbatim>\<open>struct ieee80211_vif *\<close>: the address; 0 is never a valid one, NULL is \<open>None\<close>.\<close>
type_synonym vif_ptr = nat

datatype nl80211_iftype =
    NL80211_IFTYPE_UNSPECIFIED
  | NL80211_IFTYPE_ADHOC
  | NL80211_IFTYPE_STATION
  | NL80211_IFTYPE_AP
  | NL80211_IFTYPE_AP_VLAN
  | NL80211_IFTYPE_WDS
  | NL80211_IFTYPE_MONITOR
  | NL80211_IFTYPE_MESH_POINT
  | NL80211_IFTYPE_P2P_CLIENT
  | NL80211_IFTYPE_P2P_GO
  | NL80211_IFTYPE_P2P_DEVICE

datatype nl80211_band = NL80211_BAND_2GHZ | NL80211_BAND_5GHZ

text \<open>
  The part of \<^verbatim>\<open>struct ieee80211_vif\<close> the driver reads: the interface type,
  \<^verbatim>\<open>bss_conf.assoc\<close> and \<^verbatim>\<open>bss_conf.chandef.chan->hw_value\<close> (the channel pointer is
  taken to be valid).
\<close>
record ieee80211_vif =
  vif_type :: nl80211_iftype
  bss_assoc :: bool
  bss_chan_hw_value :: u16

record ieee80211_channel =
  band :: nl80211_band
  center_freq :: u16
  hw_value :: u16

text \<open>\<^verbatim>\<open>hw->conf\<close>: the requested power level and \<^verbatim>\<open>chandef.chan\<close>.\<close>
record ieee80211_conf =
  power_level :: s32
  chandef_chan :: ieee80211_channel

record ieee80211_tx_queue_params =
  txop :: u16
  cw_min :: u16
  cw_max :: u16
  aifs :: u8
  acm :: bool
  uapsd :: bool

datatype key_flag =
    IEEE80211_KEY_FLAG_GENERATE_IV_MGMT
  | IEEE80211_KEY_FLAG_GENERATE_IV
  | IEEE80211_KEY_FLAG_GENERATE_MMIC
  | IEEE80211_KEY_FLAG_PAIRWISE
  | IEEE80211_KEY_FLAG_SW_MGMT_TX
  | IEEE80211_KEY_FLAG_PUT_IV_SPACE
  | IEEE80211_KEY_FLAG_RX_MGMT
  | IEEE80211_KEY_FLAG_RESERVE_TAILROOM

text \<open>
  \<^verbatim>\<open>struct ieee80211_key_conf\<close>. The key material is a flexible array member behind the
  struct, so \<^verbatim>\<open>sizeof\<close> does not cover it.
\<close>
record ieee80211_key_conf =
  cipher :: u32
  icv_len :: u8
  iv_len :: u8
  hw_key_idx :: u8
  flags :: "key_flag set"
  keyidx :: s8
  keylen :: u8
  key :: "u8 list"

datatype set_key_cmd = SET_KEY | DISABLE_KEY | OTHER_KEY_CMD

datatype ieee80211_ampdu_mlme_action =
    IEEE80211_AMPDU_RX_START
  | IEEE80211_AMPDU_RX_STOP
  | IEEE80211_AMPDU_TX_START
  | IEEE80211_AMPDU_TX_STOP_CONT
  | IEEE80211_AMPDU_TX_STOP_FLUSH
  | IEEE80211_AMPDU_TX_STOP_FLUSH_CONT
  | IEEE80211_AMPDU_TX_OPERATIONAL
  | IEEE80211_AMPDU_OTHER

record ieee80211_ampdu_params =
  sta_addr :: "u8 list"
  action :: ieee80211_ampdu_mlme_action
  tid :: u16
  ssn :: u16
  buf_size :: u8

datatype nl80211_cqm_rssi_threshold_event =
    NL80211_CQM_RSSI_THRESHOLD_EVENT_LOW
  | NL80211_CQM_RSSI_THRESHOLD_EVENT_HIGH

datatype bss_change = BSS_CHANGED_ASSOC | BSS_CHANGED_CQM | BSS_CHANGED_OTHER

datatype conf_change =
  IEEE80211_CONF_CHANGE_CHANNEL | IEEE80211_CONF_CHANGE_POWER | IEEE80211_CONF_CHANGE_OTHER

record ieee80211_bss_conf =
  assoc :: bool
  bssid :: "u8 list"
  qos :: bool
  aid :: u16
  cqm_rssi_thold :: s32
  cqm_rssi_hyst :: u32

subsection \<open>Firmware commands and calls into the stack\<close>

datatype opmode = STA_OPMODE
datatype vap_status = VAP_ADD | VAP_DELETE
datatype key_type = RSI_PAIRWISE_KEY | RSI_GROUP_KEY
datatype agg_event = STA_TX_ADDBA_DONE | STA_TX_DELBA | STA_RX_ADDBA_DONE | STA_RX_DELBA

text \<open>One constructor for each management-frame helper the file calls, with its arguments.\<close>
datatype fw_cmd =
    Vap_Capabilities opmode vap_status
  | Block_Unblock bool
  | Band_Check
  | Set_Channel ieee80211_channel
  | Radio_Params_Update s32
  | Rx_Filter u16
  | Load_Key "u8 list" u8 key_type s8 u32
  | Aggregation_Params u16 u16 u8 agg_event
  | Inform_Bss_Status bool "u8 list" bool u16

datatype upcall =
    Start_Tx_Ba_Cb vif_ptr "u8 list" u16
  | Stop_Tx_Ba_Cb vif_ptr "u8 list" u16
  | Cqm_Rssi_Notify "vif_ptr option" nl80211_cqm_rssi_threshold_event s8

text \<open>
  The firmware behind the command channel: the status it returns for a command, given
  the commands issued before. 0 is success, anything else a failure.
\<close>
type_synonym firmware = "fw_cmd list \<Rightarrow> fw_cmd \<Rightarrow> int"

subsection \<open>Device state\<close>

record vif_priv =
  is_ht :: bool
  sgi :: bool
  seq_start :: u16

record security_info =
  security_enable :: bool
  ptk_cipher :: u32
  gtk_cipher :: u32

record rsi_cqm_info =
  last_cqm_event_rssi :: s8
  rssi_thold :: s32
  rssi_hyst :: u32

text \<open>
  \<open>vif_mem\<close> is the memory of the interface structures, owned by the stack; \<open>vifs\<close>
  holds pointers into it. \<open>cmd_log\<close> lists the firmware commands issued so far and
  \<open>upcalls\<close> the calls made into the stack, oldest first. \<open>sc_nvifs\<close> is a C \<^verbatim>\<open>int\<close>;
  the model does not wrap it. \<open>tx_power\<close> has the type of \<^verbatim>\<open>conf->power_level\<close>, with
  which it is compared and from which it is assigned.
\<close>
record rsi_state =
  sc_nvifs :: int
  vifs :: "nat \<Rightarrow> vif_ptr option"
  vif_mem :: "vif_ptr \<Rightarrow> ieee80211_vif"
  iface_down :: bool
  hw_data_qs_blocked :: bool
  tx_power :: s32
  secinfo :: security_info
  cqm_info :: rsi_cqm_info
  edca_params :: "u8 \<Rightarrow> ieee80211_tx_queue_params"
  vif_info :: "nat \<Rightarrow> vif_priv"
  bitrate_mask :: "nl80211_band \<Rightarrow> u32"
  min_rate :: u16
  cmd_log :: "fw_cmd list"
  upcalls :: "upcall list"

text \<open>
  Constants of \<^verbatim>\<open>rsi_main.h\<close> and \<^verbatim>\<open>rsi_mgmt.h\<close>, which the file includes: the
  number of interface slots (the extent of \<^verbatim>\<open>vifs[]\<close> and of \<^verbatim>\<open>vif_info[]\<close>, at least 1),
  the firmware's queue numbering and the receive-filter bits. \<open>KEY_CONF_TAIL\<close> is a fact
  of the layout of \<^verbatim>\<open>struct ieee80211_key_conf\<close>, declared in the stack's headers: the
  number of bytes of the trailing \<^verbatim>\<open>key[]\<close> that \<^verbatim>\<open>sizeof\<close> covers as tail padding.
  They are parameters of the operations that use them.
\<close>
record rsi_consts =
  RSI_MAX_VIFS :: nat
  VO_Q :: u8
  VI_Q :: u8
  BE_Q :: u8
  BK_Q :: u8
  ALLOW_DATA_ASSOC_PEER :: u16
  ALLOW_CTRL_ASSOC_PEER :: u16
  ALLOW_MGMT_ASSOC_PEER :: u16
  KEY_CONF_TAIL :: nat

text \<open>
  The two ways an operation leaves defined behaviour: a read through a NULL slot, and
  an access to \<^verbatim>\<open>vif_info[]\<close> at an index that is not below the number of slots.
\<close>
datatype fault = Null_Deref | Out_Of_Bounds

definition EOPNOTSUPP :: int where
  "EOPNOTSUPP = 95"

definition EINVAL :: int where
  "EINVAL = 22"

text \<open>\<^verbatim>\<open>enum ieee80211_ac_numbers\<close> and \<^verbatim>\<open>IEEE80211_NUM_ACS\<close> of the stack's headers.\<close>
definition IEEE80211_AC_VO :: u16 where
  "IEEE80211_AC_VO = 0"

definition IEEE80211_AC_VI :: u16 where
  "IEEE80211_AC_VI = 1"

definition IEEE80211_AC_BE :: u16 where
  "IEEE80211_AC_BE = 2"

definition IEEE80211_AC_BK :: u16 where
  "IEEE80211_AC_BK = 3"

definition IEEE80211_NUM_ACS :: u16 where
  "IEEE80211_NUM_ACS = 4"

definition WLAN_CIPHER_SUITE_WEP40 :: u32 where
  "WLAN_CIPHER_SUITE_WEP40 = 0x000FAC01"

definition WLAN_CIPHER_SUITE_WEP104 :: u32 where
  "WLAN_CIPHER_SUITE_WEP104 = 0x000FAC05"

section \<open>The command channel\<close>

text \<open>
  Modelled from the spec: the management-frame helpers of \<^verbatim>\<open>rsi_91x_mgmt.c\<close>
  (\<^verbatim>\<open>rsi_set_vap_capabilities\<close>, \<^verbatim>\<open>rsi_send_block_unblock_frame\<close>, \<^verbatim>\<open>rsi_band_check\<close>,
  \<^verbatim>\<open>rsi_set_channel\<close>, \<^verbatim>\<open>rsi_send_radio_params_update\<close>, \<^verbatim>\<open>rsi_send_rx_filter_frame\<close>,
  \<^verbatim>\<open>rsi_hal_load_key\<close>, \<^verbatim>\<open>rsi_send_aggregation_params_frame\<close>, \<^verbatim>\<open>rsi_inform_bss_status\<close>)
  are the command channel, a synchronous request that returns a response or a failure
  code. A helper records its command and returns the firmware's status; it changes no
  other field of the device state.
\<close>
definition fw_send :: "firmware \<Rightarrow> fw_cmd \<Rightarrow> rsi_state \<Rightarrow> int \<times> rsi_state" where
  "fw_send fw c s = (fw (cmd_log s) c, s\<lparr>cmd_log := cmd_log s @ [c]\<rparr>)"

text \<open>Modelled from the spec: the capability-add and capability-remove command.\<close>
definition rsi_set_vap_capabilities ::
  "firmware \<Rightarrow> opmode \<Rightarrow> vap_status \<Rightarrow> rsi_state \<Rightarrow> int \<times> rsi_state" where
  "rsi_set_vap_capabilities fw mode st s = fw_send fw (Vap_Capabilities mode st) s"

text \<open>Modelled from the spec: the request to block or unblock the data queues.\<close>
definition rsi_send_block_unblock_frame ::
  "firmware \<Rightarrow> bool \<Rightarrow> rsi_state \<Rightarrow> int \<times> rsi_state" where
  "rsi_send_block_unblock_frame fw block s = fw_send fw (Block_Unblock block) s"

text \<open>Modelled from the spec: the validation of the target band, which may fail.\<close>
definition rsi_band_check :: "firmware \<Rightarrow> rsi_state \<Rightarrow> int \<times> rsi_state" where
  "rsi_band_check fw s = fw_send fw Band_Check s"

text \<open>Modelled from the spec: the channel-set command.\<close>
definition rsi_set_channel ::
  "firmware \<Rightarrow> ieee80211_channel \<Rightarrow> rsi_state \<Rightarrow> int \<times> rsi_state" where
  "rsi_set_channel fw chan s = fw_send fw (Set_Channel chan) s"

text \<open>
  Modelled from the spec: the radio-parameter-update command. The helper takes the
  device state only; the level it sends is the cached one.
\<close>
definition rsi_send_radio_params_update :: "firmware \<Rightarrow> rsi_state \<Rightarrow> int \<times> rsi_state" where
  "rsi_send_radio_params_update fw s = fw_send fw (Radio_Params_Update (tx_power s)) s"

text \<open>Modelled from the spec: the receive-filter command.\<close>
definition rsi_send_rx_filter_frame :: "firmware \<Rightarrow> u16 \<Rightarrow> rsi_state \<Rightarrow> int \<times> rsi_state" where
  "rsi_send_rx_filter_frame fw w s = fw_send fw (Rx_Filter w) s"

text \<open>Modelled from the spec: the key-load command.\<close>
definition rsi_hal_load_key ::
  "firmware \<Rightarrow> u8 list \<Rightarrow> u8 \<Rightarrow> key_type \<Rightarrow> s8 \<Rightarrow> u32 \<Rightarrow> rsi_state \<Rightarrow> int \<times> rsi_state" where
  "rsi_hal_load_key fw data len kt idx c s = fw_send fw (Load_Key data len kt idx c) s"

text \<open>Modelled from the spec: the block-ack add and delete commands.\<close>
definition rsi_send_aggregation_params_frame ::
  "firmware \<Rightarrow> u16 \<Rightarrow> u16 \<Rightarrow> u8 \<Rightarrow> agg_event \<Rightarrow> rsi_state \<Rightarrow> int \<times> rsi_state" where
  "rsi_send_aggregation_params_frame fw t seq_no bs ev s =
     fw_send fw (Aggregation_Params t seq_no bs ev) s"

text \<open>Modelled from the spec: the inform-association-status command.\<close>
definition rsi_inform_bss_status ::
  "firmware \<Rightarrow> bool \<Rightarrow> u8 list \<Rightarrow> bool \<Rightarrow> u16 \<Rightarrow> rsi_state \<Rightarrow> int \<times> rsi_state" where
  "rsi_inform_bss_status fw st b q a s = fw_send fw (Inform_Bss_Status st b q a) s"

text \<open>The calls into the stack (\<^verbatim>\<open>ieee80211_*\<close>) are recorded, nothing else.\<close>
definition notify :: "upcall \<Rightarrow> rsi_state \<Rightarrow> rsi_state" where
  "notify u s = s\<lparr>upcalls := upcalls s @ [u]\<rparr>"

section \<open>Interface life cycle\<close>

text \<open>
  \<^verbatim>\<open>rsi_mac80211_add_interface\<close>: \<open>ret\<close> starts as \<open>-EOPNOTSUPP\<close> and is overwritten only
  in the station case when \<open>sc_nvifs\<close> is zero; there the count and the slot are written
  before the firmware is asked.
\<close>
definition rsi_mac80211_add_interface ::
  "firmware \<Rightarrow> vif_ptr \<Rightarrow> rsi_state \<Rightarrow> int \<times> rsi_state" where
  "rsi_mac80211_add_interface fw vif s =
     (case vif_type (vif_mem s vif) of
        NL80211_IFTYPE_STATION \<Rightarrow>
          (if sc_nvifs s = 0
           then rsi_set_vap_capabilities fw STA_OPMODE VAP_ADD
                  (s\<lparr>sc_nvifs := sc_nvifs s + 1, vifs := (vifs s)(0 := Some vif)\<rparr>)
           else (- EOPNOTSUPP, s))
      | _ \<Rightarrow> (- EOPNOTSUPP, s))"

text \<open>
  \<^verbatim>\<open>rsi_mac80211_remove_interface\<close>: the count is decremented for every station-type
  argument; \<^verbatim>\<open>memcmp\<close> then compares the stored structure with the argument, byte for
  byte (equality of the records), and reads through \<^verbatim>\<open>vifs[0]\<close> whether or not it is NULL.
\<close>
definition rsi_mac80211_remove_interface ::
  "firmware \<Rightarrow> vif_ptr \<Rightarrow> rsi_state \<Rightarrow> fault + rsi_state" where
  "rsi_mac80211_remove_interface fw vif s =
     (let s1 = (if vif_type (vif_mem s vif) = NL80211_IFTYPE_STATION
                then snd (rsi_set_vap_capabilities fw STA_OPMODE VAP_DELETE
                            (s\<lparr>sc_nvifs := sc_nvifs s - 1\<rparr>))
                else s)
      in case vifs s1 0 of
           None \<Rightarrow> Inl Null_Deref
         | Some p \<Rightarrow>
             Inr (if vif_mem s1 p = vif_mem s1 vif
                  then s1\<lparr>vifs := (vifs s1)(0 := None)\<rparr>
                  else s1))"

text \<open>\<^verbatim>\<open>rsi_mac80211_start\<close> and \<^verbatim>\<open>rsi_mac80211_stop\<close>; the filter frame's status is dropped.\<close>
definition rsi_mac80211_start :: "firmware \<Rightarrow> rsi_state \<Rightarrow> int \<times> rsi_state" where
  "rsi_mac80211_start fw s =
     (0, snd (rsi_send_rx_filter_frame fw 0 (s\<lparr>iface_down := False\<rparr>)))"

definition rsi_mac80211_stop :: "firmware \<Rightarrow> rsi_state \<Rightarrow> rsi_state" where
  "rsi_mac80211_stop fw s = snd (rsi_send_rx_filter_frame fw 0xffff (s\<lparr>iface_down := True\<rparr>))"

section \<open>Channel and power\<close>

text \<open>\<^verbatim>\<open>rsi_get_connected_channel\<close>: 0 when no interface is stored.\<close>
definition rsi_get_connected_channel :: "rsi_state \<Rightarrow> u16" where
  "rsi_get_connected_channel s =
     (case vifs s 0 of
        Some vif \<Rightarrow> bss_chan_hw_value (vif_mem s vif)
      | None \<Rightarrow> 0)"

text \<open>
  A block or unblock request; the flag follows the request only when the firmware
  accepted it (\<^verbatim>\<open>if (!rsi_send_block_unblock_frame(...)) hw_data_qs_blocked = ...\<close>).
\<close>
definition block_unblock :: "firmware \<Rightarrow> bool \<Rightarrow> rsi_state \<Rightarrow> rsi_state" where
  "block_unblock fw block s =
     (case rsi_send_block_unblock_frame fw block s of
        (st, s1) \<Rightarrow> if st = 0 then s1\<lparr>hw_data_qs_blocked := block\<rparr> else s1)"

text \<open>
  \<^verbatim>\<open>rsi_channel_change\<close>. \<^verbatim>\<open>bss\<close> is taken through \<^verbatim>\<open>adapter->vifs[0]\<close> without a
  check, so a NULL slot is a fault at the first read of \<^verbatim>\<open>bss->assoc\<close>.
\<close>
definition rsi_channel_change ::
  "firmware \<Rightarrow> ieee80211_conf \<Rightarrow> rsi_state \<Rightarrow> fault + (int \<times> rsi_state)" where
  "rsi_channel_change fw conf s =
     (case vifs s 0 of
        None \<Rightarrow> Inl Null_Deref
      | Some p \<Rightarrow>
          (let curchan = chandef_chan conf;
               channel = hw_value curchan;
               s1 = (if bss_assoc (vif_mem s p)
                     then (if \<not> hw_data_qs_blocked s \<and> rsi_get_connected_channel s \<noteq> channel
                           then block_unblock fw True s
                           else s)
                     else s);
               (status, s2) =
                 (case rsi_band_check fw s1 of
                    (st, s') \<Rightarrow> if st = 0 then rsi_set_channel fw curchan s' else (st, s'));
               s3 = (if bss_assoc (vif_mem s2 p)
                     then (if hw_data_qs_blocked s2 \<and> rsi_get_connected_channel s2 = channel
                           then block_unblock fw False s2
                           else s2)
                     else (if hw_data_qs_blocked s2
                           then block_unblock fw False s2
                           else s2))
           in Inr (status, s3)))"

text \<open>\<^verbatim>\<open>rsi_config_power\<close>: the level is cached before the firmware is asked.\<close>
definition rsi_config_power ::
  "firmware \<Rightarrow> ieee80211_conf \<Rightarrow> rsi_state \<Rightarrow> int \<times> rsi_state" where
  "rsi_config_power fw conf s =
     (if sc_nvifs s \<le> 0 then (- EINVAL, s)
      else if power_level conf = tx_power s then (0, s)
      else rsi_send_radio_params_update fw (s\<lparr>tx_power := power_level conf\<rparr>))"

definition rsi_mac80211_config ::
  "firmware \<Rightarrow> ieee80211_conf \<Rightarrow> conf_change set \<Rightarrow> rsi_state \<Rightarrow> fault + (int \<times> rsi_state)" where
  "rsi_mac80211_config fw conf changed s =
     (case (if IEEE80211_CONF_CHANGE_CHANNEL \<in> changed
            then rsi_channel_change fw conf s
            else Inr (- EOPNOTSUPP, s)) of
        Inl f \<Rightarrow> Inl f
      | Inr (status, s1) \<Rightarrow>
          Inr (if IEEE80211_CONF_CHANGE_POWER \<in> changed
               then rsi_config_power fw conf s1
               else (status, s1)))"

section \<open>BSS changes, queue parameters\<close>

definition rsi_mac80211_bss_info_changed ::
  "firmware \<Rightarrow> rsi_consts \<Rightarrow> ieee80211_bss_conf \<Rightarrow> bss_change set \<Rightarrow> rsi_state \<Rightarrow> rsi_state" where
  "rsi_mac80211_bss_info_changed fw rc bss_conf changed s =
     (let s1 = (if BSS_CHANGED_ASSOC \<in> changed
                then (let s' = (if assoc bss_conf
                                then snd (rsi_send_rx_filter_frame fw
                                            (ALLOW_DATA_ASSOC_PEER rc OR ALLOW_CTRL_ASSOC_PEER rc OR
                                             ALLOW_MGMT_ASSOC_PEER rc) s)
                                else s)
                      in snd (rsi_inform_bss_status fw (assoc bss_conf) (bssid bss_conf)
                                (qos bss_conf) (aid bss_conf) s'))
                else s)
      in if BSS_CHANGED_CQM \<in> changed
         then s1\<lparr>cqm_info := (cqm_info s1)\<lparr>last_cqm_event_rssi := 0,
                                            rssi_thold := cqm_rssi_thold bss_conf,
                                            rssi_hyst := cqm_rssi_hyst bss_conf\<rparr>\<rparr>
         else s1)"

text \<open>The \<^verbatim>\<open>switch\<close> of \<^verbatim>\<open>rsi_mac80211_conf_tx\<close>, its cases in source order.\<close>
definition conf_tx_idx :: "rsi_consts \<Rightarrow> u16 \<Rightarrow> u8" where
  "conf_tx_idx rc queue =
     (if queue = IEEE80211_AC_VO then VO_Q rc
      else if queue = IEEE80211_AC_VI then VI_Q rc
      else if queue = IEEE80211_AC_BE then BE_Q rc
      else if queue = IEEE80211_AC_BK then BK_Q rc
      else BE_Q rc)"

definition rsi_mac80211_conf_tx ::
  "rsi_consts \<Rightarrow> u16 \<Rightarrow> ieee80211_tx_queue_params \<Rightarrow> rsi_state \<Rightarrow> int \<times> rsi_state" where
  "rsi_mac80211_conf_tx rc queue params s =
     (if queue \<ge> IEEE80211_NUM_ACS then (0, s)
      else (0, s\<lparr>edca_params := (edca_params s)(conf_tx_idx rc queue := params)\<rparr>))"

section \<open>Keys\<close>

text \<open>
  \<^verbatim>\<open>rsi_hal_key_config\<close>: a WEP key is loaded as a pairwise key first, and the second
  load is skipped when the first fails.
\<close>
definition rsi_hal_key_config ::
  "firmware \<Rightarrow> ieee80211_key_conf \<Rightarrow> rsi_state \<Rightarrow> int \<times> rsi_state" where
  "rsi_hal_key_config fw kc s =
     (let kt = (if IEEE80211_KEY_FLAG_PAIRWISE \<in> flags kc
                then RSI_PAIRWISE_KEY else RSI_GROUP_KEY)
      in if cipher kc = WLAN_CIPHER_SUITE_WEP104 \<or> cipher kc = WLAN_CIPHER_SUITE_WEP40
         then (case rsi_hal_load_key fw (key kc) (keylen kc) RSI_PAIRWISE_KEY
                      (keyidx kc) (cipher kc) s of
                 (status, s1) \<Rightarrow>
                   if status \<noteq> 0 then (status, s1)
                   else rsi_hal_load_key fw (key kc) (keylen kc) kt (keyidx kc) (cipher kc) s1)
         else rsi_hal_load_key fw (key kc) (keylen kc) kt (keyidx kc) (cipher kc) s)"

text \<open>
  \<^verbatim>\<open>memset(key, 0, sizeof(struct ieee80211_key_conf))\<close>: every field, and the first
  \<open>KEY_CONF_TAIL\<close> key bytes, which lie in the tail padding that \<^verbatim>\<open>sizeof\<close> counts. The
  key bytes behind them are kept.
\<close>
definition memset_key_conf :: "rsi_consts \<Rightarrow> ieee80211_key_conf \<Rightarrow> ieee80211_key_conf" where
  "memset_key_conf rc kc =
     kc\<lparr>cipher := 0, icv_len := 0, iv_len := 0, hw_key_idx := 0, flags := {},
        keyidx := 0, keylen := 0,
        key := replicate (min (KEY_CONF_TAIL rc) (length (key kc))) 0 @
               drop (KEY_CONF_TAIL rc) (key kc)\<rparr>"

text \<open>
  \<^verbatim>\<open>rsi_mac80211_set_key\<close>. The key structure is the caller's and is written to, so it is
  returned with the status and the state.
\<close>
definition rsi_mac80211_set_key ::
  "firmware \<Rightarrow> rsi_consts \<Rightarrow> set_key_cmd \<Rightarrow> ieee80211_key_conf \<Rightarrow> rsi_state \<Rightarrow>
   int \<times> rsi_state \<times> ieee80211_key_conf" where
  "rsi_mac80211_set_key fw rc cmd kc s =
     (case cmd of
        SET_KEY \<Rightarrow>
          (case rsi_hal_key_config fw kc (s\<lparr>secinfo := (secinfo s)\<lparr>security_enable := True\<rparr>\<rparr>) of
             (status, s2) \<Rightarrow>
               if status \<noteq> 0 then (status, s2, kc)
               else (status,
                     (if IEEE80211_KEY_FLAG_PAIRWISE \<in> flags kc
                      then s2\<lparr>secinfo := (secinfo s2)\<lparr>ptk_cipher := cipher kc\<rparr>\<rparr>
                      else s2\<lparr>secinfo := (secinfo s2)\<lparr>gtk_cipher := cipher kc\<rparr>\<rparr>),
                     kc\<lparr>hw_key_idx := keyidx kc,
                        flags := insert IEEE80211_KEY_FLAG_GENERATE_IV (flags kc)\<rparr>))
      | DISABLE_KEY \<Rightarrow>
          (case rsi_hal_key_config fw (memset_key_conf rc kc)
                  (s\<lparr>secinfo := (secinfo s)\<lparr>security_enable := False\<rparr>\<rparr>) of
             (status, s2) \<Rightarrow> (status, s2, memset_key_conf rc kc))
      | OTHER_KEY_CMD \<Rightarrow> (- EOPNOTSUPP, s, kc))"

section \<open>Aggregation\<close>

text \<open>
  The slot search of \<^verbatim>\<open>rsi_mac80211_ampdu_action\<close>: \<open>ii\<close> runs from 0 and stops at the
  first slot holding the pointer, or at \<^verbatim>\<open>RSI_MAX_VIFS\<close>. The last argument counts the
  slots still to visit. (\<open>ii\<close> is a \<^verbatim>\<open>u8\<close>; the slot count is taken to fit.)
\<close>
fun vif_slot :: "(nat \<Rightarrow> vif_ptr option) \<Rightarrow> vif_ptr \<Rightarrow> nat \<Rightarrow> nat \<Rightarrow> nat" where
  "vif_slot vs vif ii 0 = ii"
| "vif_slot vs vif ii (Suc r) = (if vs ii = Some vif then ii else vif_slot vs vif (Suc ii) r)"

text \<open>The body shared by the three \<^verbatim>\<open>TX_STOP\<close> case labels.\<close>
definition ampdu_tx_stop ::
  "firmware \<Rightarrow> vif_ptr \<Rightarrow> ieee80211_ampdu_params \<Rightarrow> rsi_state \<Rightarrow> int \<times> rsi_state" where
  "ampdu_tx_stop fw vif params s =
     (case rsi_send_aggregation_params_frame fw (tid params) (ssn params) (buf_size params)
             STA_TX_DELBA s of
        (status, s1) \<Rightarrow>
          (status,
           if status = 0
           then notify (Stop_Tx_Ba_Cb vif (sta_addr params) (tid params)) s1
           else s1))"

text \<open>
  \<^verbatim>\<open>rsi_mac80211_ampdu_action\<close>. \<^verbatim>\<open>ssn\<close> is the address of a field and never NULL, so
  \<open>seq_no\<close> is always the supplied sequence number. Any action without a case label
  leaves \<open>status\<close> at \<open>-EOPNOTSUPP\<close>. When the interface is in no slot the search
  leaves \<open>ii\<close> at \<^verbatim>\<open>RSI_MAX_VIFS\<close>, and the two cases that use \<^verbatim>\<open>vif_info[ii]\<close> access
  it past its last entry.
\<close>
definition rsi_mac80211_ampdu_action ::
  "firmware \<Rightarrow> rsi_consts \<Rightarrow> vif_ptr \<Rightarrow> ieee80211_ampdu_params \<Rightarrow> rsi_state \<Rightarrow>
   fault + (int \<times> rsi_state)" where
  "rsi_mac80211_ampdu_action fw rc vif params s =
     (let ii = vif_slot (vifs s) vif 0 (RSI_MAX_VIFS rc);
          seq_no = ssn params
      in case action params of
           IEEE80211_AMPDU_RX_START \<Rightarrow>
             Inr (rsi_send_aggregation_params_frame fw (tid params) seq_no (buf_size params)
                    STA_RX_ADDBA_DONE s)
         | IEEE80211_AMPDU_RX_STOP \<Rightarrow>
             Inr (rsi_send_aggregation_params_frame fw (tid params) 0 (buf_size params)
                    STA_RX_DELBA s)
         | IEEE80211_AMPDU_TX_START \<Rightarrow>
             (if ii < RSI_MAX_VIFS rc
              then Inr (0, notify (Start_Tx_Ba_Cb vif (sta_addr params) (tid params))
                             (s\<lparr>vif_info :=
                                  (vif_info s)(ii := (vif_info s ii)\<lparr>seq_start := seq_no\<rparr>)\<rparr>))
              else Inl Out_Of_Bounds)
         | IEEE80211_AMPDU_TX_OPERATIONAL \<Rightarrow>
             (if ii < RSI_MAX_VIFS rc
              then Inr (rsi_send_aggregation_params_frame fw (tid params)
                          (seq_start (vif_info s ii)) (buf_size params) STA_TX_ADDBA_DONE s)
              else Inl Out_Of_Bounds)
         | IEEE80211_AMPDU_TX_STOP_CONT \<Rightarrow> Inr (ampdu_tx_stop fw vif params s)
         | IEEE80211_AMPDU_TX_STOP_FLUSH \<Rightarrow> Inr (ampdu_tx_stop fw vif params s)
         | IEEE80211_AMPDU_TX_STOP_FLUSH_CONT \<Rightarrow> Inr (ampdu_tx_stop fw vif params s)
         | IEEE80211_AMPDU_OTHER \<Rightarrow> Inr (- EOPNOTSUPP, s))"

section \<open>Connection quality, station removal\<close>

text \<open>
  \<^verbatim>\<open>rsi_perform_cqm\<close>. \<open>rssi\<close> and \<open>last_event\<close> are \<^verbatim>\<open>s8\<close>, \<open>thold\<close> is \<^verbatim>\<open>int\<close> and
  \<open>hyst\<close> is \<^verbatim>\<open>u32\<close>. The comparison with \<open>thold\<close> is signed. \<open>last_event - hyst\<close> and
  \<open>last_event + hyst\<close> have an unsigned operand, so C converts \<open>last_event\<close> to
  \<^verbatim>\<open>unsigned int\<close>, computes modulo \<open>2 ^ 32\<close>, and converts \<open>rssi\<close> the same way for an
  unsigned comparison. \<open>scast\<close> is the sign-extending conversion and \<open><\<close> on words is
  the unsigned order.
\<close>
definition rsi_perform_cqm :: "s8 \<Rightarrow> rsi_state \<Rightarrow> rsi_state" where
  "rsi_perform_cqm rssi s =
     (let last_event = last_cqm_event_rssi (cqm_info s);
          thold = rssi_thold (cqm_info s);
          hyst = rssi_hyst (cqm_info s);
          emit = (\<lambda>event.
            notify (Cqm_Rssi_Notify (vifs s 0) event rssi)
              (s\<lparr>cqm_info := (cqm_info s)\<lparr>last_cqm_event_rssi := rssi\<rparr>\<rparr>))
      in if sint rssi < sint thold \<and>
            (last_event = 0 \<or> (scast rssi :: u32) < scast last_event - hyst)
         then emit NL80211_CQM_RSSI_THRESHOLD_EVENT_LOW
         else if sint rssi > sint thold \<and>
                 (last_event = 0 \<or> (scast rssi :: u32) > scast last_event + hyst)
         then emit NL80211_CQM_RSSI_THRESHOLD_EVENT_HIGH
         else s)"

text \<open>Feeding a sequence of beacon readings to the monitor, first reading first.\<close>
fun cqm_run :: "s8 list \<Rightarrow> rsi_state \<Rightarrow> rsi_state" where
  "cqm_run [] s = s"
| "cqm_run (r # rs) s = cqm_run rs (rsi_perform_cqm r s)"

definition rsi_mac80211_sta_remove :: "firmware \<Rightarrow> rsi_state \<Rightarrow> int \<times> rsi_state" where
  "rsi_mac80211_sta_remove fw s =
     (0, snd (rsi_send_rx_filter_frame fw 0
        (s\<lparr>bitrate_mask := (bitrate_mask s)(NL80211_BAND_2GHZ := 0, NL80211_BAND_5GHZ := 0),
           min_rate := 0xffff,
           vif_info := (vif_info s)(0 := (vif_info s 0)\<lparr>is_ht := False, sgi := False,
                                                         seq_start := 0\<rparr>),
           secinfo := (secinfo s)\<lparr>ptk_cipher := 0, gtk_cipher := 0\<rparr>\<rparr>)))"

section \<open>Sequences of operations\<close>

text \<open>
  The operations the stack may call, in any order. A run stops at the first fault. The
  key structure that \<^verbatim>\<open>set_key\<close> hands back belongs to the caller and is dropped.
  The remaining entries of the operations table (RTS threshold, rate mask, antenna,
  filter flags, \<^verbatim>\<open>sta_add\<close>) write neither the interface count, nor the interface slots,
  nor a recorded starting sequence number, and are left out.
\<close>
datatype ctl_op =
    Start
  | Stop
  | Add_Interface vif_ptr
  | Remove_Interface vif_ptr
  | Config ieee80211_conf "conf_change set"
  | Bss_Info_Changed ieee80211_bss_conf "bss_change set"
  | Conf_Tx u16 ieee80211_tx_queue_params
  | Set_Key set_key_cmd ieee80211_key_conf
  | Ampdu_Action vif_ptr ieee80211_ampdu_params
  | Sta_Remove
  | Beacon_Rssi s8

fun ctl_step :: "firmware \<Rightarrow> rsi_consts \<Rightarrow> ctl_op \<Rightarrow> rsi_state \<Rightarrow> fault + rsi_state" where
  "ctl_step fw rc Start s = Inr (snd (rsi_mac80211_start fw s))"
| "ctl_step fw rc Stop s = Inr (rsi_mac80211_stop fw s)"
| "ctl_step fw rc (Add_Interface vif) s = Inr (snd (rsi_mac80211_add_interface fw vif s))"
| "ctl_step fw rc (Remove_Interface vif) s = rsi_mac80211_remove_interface fw vif s"
| "ctl_step fw rc (Config conf changed) s =
     (case rsi_mac80211_config fw conf changed s of
        Inl f \<Rightarrow> Inl f
      | Inr r \<Rightarrow> Inr (snd r))"
| "ctl_step fw rc (Bss_Info_Changed bss_conf changed) s =
     Inr (rsi_mac80211_bss_info_changed fw rc bss_conf changed s)"
| "ctl_step fw rc (Conf_Tx queue params) s = Inr (snd (rsi_mac80211_conf_tx rc queue params s))"
| "ctl_step fw rc (Set_Key cmd kc) s = Inr (fst (snd (rsi_mac80211_set_key fw rc cmd kc s)))"
| "ctl_step fw rc (Ampdu_Action vif params) s =
     (case rsi_mac80211_ampdu_action fw rc vif params s of
        Inl f \<Rightarrow> Inl f
      | Inr r \<Rightarrow> Inr (snd r))"
| "ctl_step fw rc Sta_Remove s = Inr (snd (rsi_mac80211_sta_remove fw s))"
| "ctl_step fw rc (Beacon_Rssi rssi) s = Inr (rsi_perform_cqm rssi s)"

fun ctl_run :: "firmware \<Rightarrow> rsi_consts \<Rightarrow> ctl_op list \<Rightarrow> rsi_state \<Rightarrow> fault + rsi_state" where
  "ctl_run fw rc [] s = Inr s"
| "ctl_run fw rc (op # ops) s =
     (case ctl_step fw rc op s of
        Inl f \<Rightarrow> Inl f
      | Inr s' \<Rightarrow> ctl_run fw rc ops s')"

text \<open>The interface count, the slots and the interface memory are the same in two states.\<close>
definition iface_frame :: "rsi_state \<Rightarrow> rsi_state \<Rightarrow> bool" where
  "iface_frame s s' \<longleftrightarrow>
     sc_nvifs s' = sc_nvifs s \<and> vifs s' = vifs s \<and> vif_mem s' = vif_mem s"

text \<open>
  The interface count and the interface slot agree: either nothing is counted and
  nothing is stored, or one interface is counted and a station interface is stored.
\<close>
definition count_slot_agree :: "rsi_state \<Rightarrow> bool" where
  "count_slot_agree s \<longleftrightarrow>
     (case vifs s 0 of
        None \<Rightarrow> sc_nvifs s = 0
      | Some p \<Rightarrow> sc_nvifs s = 1 \<and> vif_type (vif_mem s p) = NL80211_IFTYPE_STATION)"

text \<open>
  A condition on the arguments of the removals in a run: every \<^verbatim>\<open>remove_interface\<close> is
  called with the interface that is stored at that moment, as the stack does when it
  removes the interface it added. The arguments of all other operations are free.
\<close>
fun removes_stored :: "firmware \<Rightarrow> rsi_consts \<Rightarrow> ctl_op list \<Rightarrow> rsi_state \<Rightarrow> bool" where
  "removes_stored fw rc [] s = True"
| "removes_stored fw rc (op # ops) s =
     ((case op of
         Remove_Interface vif \<Rightarrow> vifs s 0 = Some vif
       | _ \<Rightarrow> True) \<and>
      (case ctl_step fw rc op s of
         Inl f \<Rightarrow> True
       | Inr s' \<Rightarrow> removes_stored fw rc ops s'))"

text \<open>The interface is stored, and slot \<open>i\<close> is the first slot that stores it.\<close>
definition vif_in_slot :: "rsi_consts \<Rightarrow> rsi_state \<Rightarrow> vif_ptr \<Rightarrow> nat \<Rightarrow> bool" where
  "vif_in_slot rc s vif i \<longleftrightarrow>
     i < RSI_MAX_VIFS rc \<and> vifs s i = Some vif \<and> (\<forall>j<i. vifs s j \<noteq> Some vif)"

text \<open>
  The operations that may run between a \<^verbatim>\<open>TX_START\<close> on an interface and a later
  \<^verbatim>\<open>TX_OPERATIONAL\<close> on it without touching what was recorded: every operation but
  \<^verbatim>\<open>sta_remove\<close>, which resets the record of slot 0, the addition and removal of
  interfaces, which rewrite the slots, and a further \<^verbatim>\<open>TX_START\<close> on the same interface.
\<close>
fun keeps_seq_start :: "vif_ptr \<Rightarrow> ctl_op \<Rightarrow> bool" where
  "keeps_seq_start vif Sta_Remove = False"
| "keeps_seq_start vif (Add_Interface v) = False"
| "keeps_seq_start vif (Remove_Interface v) = False"
| "keeps_seq_start vif (Ampdu_Action v q) =
     (action q \<noteq> IEEE80211_AMPDU_TX_START \<or> v \<noteq> vif)"
| "keeps_seq_start vif op = True"

text \<open>The commands that the channel programming in \<^verbatim>\<open>rsi_channel_change\<close> issues after \<open>log\<close>.\<close>
definition chan_cmds :: "firmware \<Rightarrow> ieee80211_conf \<Rightarrow> fw_cmd list \<Rightarrow> fw_cmd list" where
  "chan_cmds fw conf log =
     (if fw log Band_Check = 0 then [Band_Check, Set_Channel (chandef_chan conf)]
      else [Band_Check])"

text \<open>The comparisons of the connection-quality rule on integers, without any wrap-around.\<close>
definition cqm_rule ::
  "int \<Rightarrow> int \<Rightarrow> int \<Rightarrow> int \<Rightarrow> nl80211_cqm_rssi_threshold_event option" where
  "cqm_rule rssi last_event thold hyst =
     (if rssi < thold \<and> (last_event = 0 \<or> rssi < last_event - hyst)
      then Some NL80211_CQM_RSSI_THRESHOLD_EVENT_LOW
      else if rssi > thold \<and> (last_event = 0 \<or> rssi > last_event + hyst)
      then Some NL80211_CQM_RSSI_THRESHOLD_EVENT_HIGH
      else None)"

section \<open>Concrete states and inputs\<close>

text \<open>The state of a freshly allocated, zeroed device over a given interface memory.\<close>
definition rsi_zero_state :: "(vif_ptr \<Rightarrow> ieee80211_vif) \<Rightarrow> rsi_state" where
  "rsi_zero_state mem =
     \<lparr>sc_nvifs = 0, vifs = (\<lambda>_. None), vif_mem = mem, iface_down = False,
      hw_data_qs_blocked = False, tx_power = 0,
      secinfo = \<lparr>security_enable = False, ptk_cipher = 0, gtk_cipher = 0\<rparr>,
      cqm_info = \<lparr>last_cqm_event_rssi = 0, rssi_thold = 0, rssi_hyst = 0\<rparr>,
      edca_params = (\<lambda>_. \<lparr>txop = 0, cw_min = 0, cw_max = 0, aifs = 0, acm = False,
                            uapsd = False\<rparr>),
      vif_info = (\<lambda>_. \<lparr>is_ht = False, sgi = False, seq_start = 0\<rparr>),
      bitrate_mask = (\<lambda>_. 0), min_rate = 0, cmd_log = [], upcalls = []\<rparr>"

text \<open>A station interface, associated or not, connected on a given channel.\<close>
definition sta_vif :: "bool \<Rightarrow> u16 \<Rightarrow> ieee80211_vif" where
  "sta_vif a ch = \<lparr>vif_type = NL80211_IFTYPE_STATION, bss_assoc = a, bss_chan_hw_value = ch\<rparr>"

text \<open>A firmware that accepts every command, and one that rejects every command.\<close>
definition fw_ok :: firmware where
  "fw_ok log c = 0"

definition fw_fail :: firmware where
  "fw_fail log c = - 1"

text \<open>
  One interface slot, the queue numbering 0 to 3 for background, best effort, video and
  voice, and six key bytes in the tail padding of the key structure.
\<close>
definition consts0 :: rsi_consts where
  "consts0 = \<lparr>RSI_MAX_VIFS = 1, VO_Q = 3, VI_Q = 2, BE_Q = 1, BK_Q = 0,
              ALLOW_DATA_ASSOC_PEER = 1, ALLOW_CTRL_ASSOC_PEER = 2,
              ALLOW_MGMT_ASSOC_PEER = 4, KEY_CONF_TAIL = 6\<rparr>"

text \<open>The same constants with two interface slots.\<close>
definition consts2 :: rsi_consts where
  "consts2 = consts0\<lparr>RSI_MAX_VIFS := 2\<rparr>"

text \<open>The state after the station interface at address 1 was added to a zeroed device.\<close>
definition one_sta_state :: "bool \<Rightarrow> u16 \<Rightarrow> rsi_state" where
  "one_sta_state a ch =
     snd (rsi_mac80211_add_interface fw_ok 1 (rsi_zero_state (\<lambda>_. sta_vif a ch)))"

text \<open>The same state with the data queues blocked, as a switch away from the channel leaves it.\<close>
definition blocked_state :: "bool \<Rightarrow> u16 \<Rightarrow> rsi_state" where
  "blocked_state a ch = (one_sta_state a ch)\<lparr>hw_data_qs_blocked := True\<rparr>"

text \<open>
  A state with the interface at address 1 in slot 0 and the interface at address 2 in
  slot 1.
\<close>
definition two_slot_state :: rsi_state where
  "two_slot_state = (one_sta_state True 1)\<lparr>vifs := (vifs (one_sta_state True 1))(1 := Some 2)\<rparr>"

text \<open>The slot 0 of a state reached by a run, and a fault otherwise.\<close>
definition stored_vif :: "fault + rsi_state \<Rightarrow> fault + vif_ptr option" where
  "stored_vif r = map_sum id (\<lambda>s. vifs s 0) r"

text \<open>Two station interfaces that differ in their contents, at addresses 1 and 2.\<close>
definition mem_two :: "vif_ptr \<Rightarrow> ieee80211_vif" where
  "mem_two p = (if p = 1 then sta_vif True 1 else sta_vif False 6)"

text \<open>
  The state after the interface at address 1 was added and the interface at address 2,
  which was never added, was removed: nothing is counted, and address 1 is still stored.
\<close>
definition orphan_state :: rsi_state where
  "orphan_state =
     (rsi_zero_state mem_two)
       \<lparr>sc_nvifs := 0, vifs := (\<lambda>_. None)(0 := Some 1),
        cmd_log := [Vap_Capabilities STA_OPMODE VAP_ADD, Vap_Capabilities STA_OPMODE VAP_DELETE]\<rparr>"

text \<open>An access-point interface everywhere.\<close>
definition mem_ap :: "vif_ptr \<Rightarrow> ieee80211_vif" where
  "mem_ap p = \<lparr>vif_type = NL80211_IFTYPE_AP, bss_assoc = False, bss_chan_hw_value = 0\<rparr>"

definition hw_conf :: "s32 \<Rightarrow> u16 \<Rightarrow> ieee80211_conf" where
  "hw_conf lvl ch =
     \<lparr>power_level = lvl,
      chandef_chan = \<lparr>band = NL80211_BAND_2GHZ, center_freq = 2407 + 5 * ch, hw_value = ch\<rparr>\<rparr>"

text \<open>A firmware that rejects one command and accepts the others.\<close>
definition fw_reject :: "fw_cmd \<Rightarrow> firmware" where
  "fw_reject bad log c = (if c = bad then - 1 else 0)"

text \<open>A pairwise CCMP key.\<close>
definition ccmp_key :: ieee80211_key_conf where
  "ccmp_key = \<lparr>cipher = 0x000FAC04, icv_len = 8, iv_len = 8, hw_key_idx = 0,
               flags = {IEEE80211_KEY_FLAG_PAIRWISE}, keyidx = 0, keylen = 16,
               key = [1, 2, 3, 4, 5, 6, 7, 8, 9, 10, 11, 12, 13, 14, 15, 16]\<rparr>"

text \<open>The state and the key structure after that key was set with success.\<close>
definition keyed_state :: rsi_state where
  "keyed_state =
     fst (snd (rsi_mac80211_set_key fw_ok consts0 SET_KEY ccmp_key (one_sta_state True 1)))"

definition keyed_key :: ieee80211_key_conf where
  "keyed_key =
     snd (snd (rsi_mac80211_set_key fw_ok consts0 SET_KEY ccmp_key (one_sta_state True 1)))"

definition edca1 :: ieee80211_tx_queue_params where
  "edca1 = \<lparr>txop = 47, cw_min = 3, cw_max = 7, aifs = 2, acm = False, uapsd = False\<rparr>"

definition ampdu_params :: "ieee80211_ampdu_mlme_action \<Rightarrow> u16 \<Rightarrow> u16 \<Rightarrow> ieee80211_ampdu_params" where
  "ampdu_params a t n = \<lparr>sta_addr = [0, 1, 2, 3, 4, 5], action = a, tid = t, ssn = n, buf_size = 64\<rparr>"

text \<open>A zeroed device whose monitor was configured with a threshold and a hysteresis.\<close>
definition cqm_state :: "s32 \<Rightarrow> u32 \<Rightarrow> rsi_state" where
  "cqm_state thold hyst =
     rsi_mac80211_bss_info_changed fw_ok consts0
       \<lparr>assoc = True, bssid = [0, 1, 2, 3, 4, 5], qos = True, aid = 1,
        cqm_rssi_thold = thold, cqm_rssi_hyst = hyst\<rparr>
       {BSS_CHANGED_CQM} (one_sta_state True 1)"

section \<open>Unfolding the helpers and the concrete inputs\<close>

lemmas helper_defs = fw_send_def rsi_set_vap_capabilities_def rsi_send_block_unblock_frame_def
  rsi_band_check_def rsi_set_channel_def rsi_send_radio_params_update_def
  rsi_send_rx_filter_frame_def rsi_hal_load_key_def rsi_send_aggregation_params_frame_def
  rsi_inform_bss_status_def notify_def

lemmas input_defs = rsi_zero_state_def sta_vif_def fw_ok_def fw_fail_def consts0_def
  one_sta_state_def mem_two_def mem_ap_def hw_conf_def fw_reject_def ccmp_key_def edca1_def
  ampdu_params_def cqm_state_def keyed_state_def keyed_key_def blocked_state_def
  consts2_def two_slot_state_def stored_vif_def orphan_state_def

section \<open>What the operations leave alone\<close>

lemma fw_send_frame:
  "iface_frame s (snd (fw_send fw c s))" "vif_info (snd (fw_send fw c s)) = vif_info s"
  by (simp_all add: fw_send_def iface_frame_def)

lemma start_stop_frame:
  "iface_frame s (snd (rsi_mac80211_start fw s))"
  "vif_info (snd (rsi_mac80211_start fw s)) = vif_info s"
  "iface_frame s (rsi_mac80211_stop fw s)"
  "vif_info (rsi_mac80211_stop fw s) = vif_info s"
  by (simp_all add: rsi_mac80211_start_def rsi_mac80211_stop_def rsi_send_rx_filter_frame_def
      fw_send_def iface_frame_def)

lemma block_unblock_frame:
  "iface_frame s (block_unblock fw b s)" "vif_info (block_unblock fw b s) = vif_info s"
  by (simp_all add: block_unblock_def rsi_send_block_unblock_frame_def fw_send_def
      iface_frame_def)

lemma channel_change_frame:
  assumes "rsi_channel_change fw conf s = Inr r"
  shows "iface_frame s (snd r) \<and> vif_info (snd r) = vif_info s"
  using assms
  by (auto simp: rsi_channel_change_def Let_def rsi_band_check_def rsi_set_channel_def
      block_unblock_def rsi_send_block_unblock_frame_def fw_send_def iface_frame_def
      split: option.splits prod.splits if_splits)

lemma config_power_frame:
  "iface_frame s (snd (rsi_config_power fw conf s))"
  "vif_info (snd (rsi_config_power fw conf s)) = vif_info s"
  by (simp_all add: rsi_config_power_def rsi_send_radio_params_update_def fw_send_def
      iface_frame_def)

lemma config_frame:
  assumes "rsi_mac80211_config fw conf changed s = Inr r"
  shows "iface_frame s (snd r) \<and> vif_info (snd r) = vif_info s"
proof (cases "IEEE80211_CONF_CHANGE_CHANNEL \<in> changed")
  case True
  with assms obtain r1 where r1: "rsi_channel_change fw conf s = Inr r1"
    and r: "r = (if IEEE80211_CONF_CHANGE_POWER \<in> changed
                 then rsi_config_power fw conf (snd r1) else r1)"
    by (auto simp: rsi_mac80211_config_def split: sum.splits prod.splits)
  from channel_change_frame [OF r1] r
    config_power_frame [where s = "snd r1" and fw = fw and conf = conf]
  show ?thesis
    by (auto simp: iface_frame_def)
next
  case False
  with assms have "r = (if IEEE80211_CONF_CHANGE_POWER \<in> changed
                 then rsi_config_power fw conf s else (- EOPNOTSUPP, s))"
    by (auto simp: rsi_mac80211_config_def)
  with config_power_frame [where s = s and fw = fw and conf = conf] show ?thesis
    by (auto simp: iface_frame_def)
qed

lemma bss_info_changed_frame:
  "iface_frame s (rsi_mac80211_bss_info_changed fw rc b ch s)"
  "vif_info (rsi_mac80211_bss_info_changed fw rc b ch s) = vif_info s"
  by (simp_all add: rsi_mac80211_bss_info_changed_def Let_def rsi_send_rx_filter_frame_def
      rsi_inform_bss_status_def fw_send_def iface_frame_def)

lemma conf_tx_frame:
  "iface_frame s (snd (rsi_mac80211_conf_tx rc q p s))"
  "vif_info (snd (rsi_mac80211_conf_tx rc q p s)) = vif_info s"
  by (simp_all add: rsi_mac80211_conf_tx_def iface_frame_def)

lemma hal_key_config_log_only:
  "rsi_hal_key_config fw kc s = (st, s') \<Longrightarrow> s' = s\<lparr>cmd_log := cmd_log s'\<rparr>"
  by (auto simp: rsi_hal_key_config_def Let_def rsi_hal_load_key_def fw_send_def
      split: prod.splits if_splits)

lemma hal_key_config_secinfo:
  "rsi_hal_key_config fw kc s = (st, s') \<Longrightarrow> secinfo s' = secinfo s"
  by (drule hal_key_config_log_only) (erule ssubst, simp)

lemma hal_key_config_frame:
  assumes "rsi_hal_key_config fw kc s = (st, s')"
  shows "iface_frame s s' \<and> vif_info s' = vif_info s"
  by (rule ssubst [OF hal_key_config_log_only [OF assms]]) (simp add: iface_frame_def)

lemma set_key_frame:
  "iface_frame s (fst (snd (rsi_mac80211_set_key fw rc cmd kc s))) \<and>
   vif_info (fst (snd (rsi_mac80211_set_key fw rc cmd kc s))) = vif_info s"
  by (cases cmd)
     (auto simp: rsi_mac80211_set_key_def iface_frame_def dest!: hal_key_config_frame
       split: prod.splits)

lemma perform_cqm_frame:
  "iface_frame s (rsi_perform_cqm rssi s)" "vif_info (rsi_perform_cqm rssi s) = vif_info s"
  by (simp_all add: rsi_perform_cqm_def Let_def notify_def iface_frame_def)

lemma sta_remove_frame: "iface_frame s (snd (rsi_mac80211_sta_remove fw s))"
  by (simp add: rsi_mac80211_sta_remove_def rsi_send_rx_filter_frame_def fw_send_def
      iface_frame_def)

lemmas ampdu_eval = rsi_mac80211_ampdu_action_def ampdu_tx_stop_def Let_def
  rsi_send_aggregation_params_frame_def fw_send_def notify_def

lemma ampdu_action_frame:
  assumes "rsi_mac80211_ampdu_action fw rc vif p s = Inr r"
  shows "iface_frame s (snd r)"
  using assms
  by (cases "action p") (auto simp: ampdu_eval iface_frame_def split: if_splits)

lemma ctl_step_frame:
  assumes "ctl_step fw rc op s = Inr s'"
    and "case op of Add_Interface v \<Rightarrow> False | Remove_Interface v \<Rightarrow> False | _ \<Rightarrow> True"
  shows "iface_frame s s'"
proof (cases op)
  case Start
  with assms start_stop_frame(1) [where s = s and fw = fw] show ?thesis by simp
next
  case Stop
  with assms start_stop_frame(3) [where s = s and fw = fw] show ?thesis by simp
next
  case (Config conf changed)
  with assms config_frame [where fw = fw and conf = conf and changed = changed and s = s]
  show ?thesis
    by (auto split: sum.splits)
next
  case (Bss_Info_Changed b ch)
  with assms bss_info_changed_frame(1) [where s = s and fw = fw and rc = rc and b = b and ch = ch]
  show ?thesis by simp
next
  case (Conf_Tx q p)
  with assms conf_tx_frame(1) [where s = s and rc = rc and q = q and p = p]
  show ?thesis by simp
next
  case (Set_Key cmd kc)
  with assms set_key_frame [where s = s and fw = fw and rc = rc and cmd = cmd and kc = kc]
  show ?thesis by simp
next
  case (Ampdu_Action v q)
  with assms ampdu_action_frame [where fw = fw and rc = rc and vif = v and p = q and s = s]
  show ?thesis
    by (auto split: sum.splits)
next
  case Sta_Remove
  with assms sta_remove_frame [where s = s and fw = fw] show ?thesis by simp
next
  case (Beacon_Rssi rssi)
  with assms perform_cqm_frame(1) [where s = s and rssi = rssi] show ?thesis by simp
qed (use assms in simp_all)

section \<open>Adding an interface\<close>

text \<open>
  C5, as amended: \<^verbatim>\<open>add_interface\<close> returns \<open>-EOPNOTSUPP\<close> and changes nothing for every type
  other than station, and does the same for a station interface while the interface
  count is not zero. It returns 0, or writes the slot or the count, only for a station
  interface at count zero; there it returns the firmware's status for the
  capability-add command, stores the interface in slot 0 and sets the count to 1. In a
  state where count and slot agree, a stored interface means a count that is not zero,
  so adding a second interface fails and leaves the stored interface and the count
  unchanged.
\<close>
theorem add_interface_results:
  "(vif_type (vif_mem s vif) \<noteq> NL80211_IFTYPE_STATION \<longrightarrow>
      rsi_mac80211_add_interface fw vif s = (- EOPNOTSUPP, s)) \<and>
   (vif_type (vif_mem s vif) = NL80211_IFTYPE_STATION \<and> sc_nvifs s \<noteq> 0 \<longrightarrow>
      rsi_mac80211_add_interface fw vif s = (- EOPNOTSUPP, s)) \<and>
   (fst (rsi_mac80211_add_interface fw vif s) = 0 \<or>
    vifs (snd (rsi_mac80211_add_interface fw vif s)) \<noteq> vifs s \<or>
    sc_nvifs (snd (rsi_mac80211_add_interface fw vif s)) \<noteq> sc_nvifs s \<longrightarrow>
      vif_type (vif_mem s vif) = NL80211_IFTYPE_STATION \<and> sc_nvifs s = 0) \<and>
   (vif_type (vif_mem s vif) = NL80211_IFTYPE_STATION \<and> sc_nvifs s = 0 \<longrightarrow>
      fst (rsi_mac80211_add_interface fw vif s) =
        fw (cmd_log s) (Vap_Capabilities STA_OPMODE VAP_ADD) \<and>
      vifs (snd (rsi_mac80211_add_interface fw vif s)) = (vifs s)(0 := Some vif) \<and>
      sc_nvifs (snd (rsi_mac80211_add_interface fw vif s)) = 1) \<and>
   (count_slot_agree s \<and> vifs s 0 \<noteq> None \<longrightarrow>
      rsi_mac80211_add_interface fw vif s = (- EOPNOTSUPP, s))"
proof -
  have main: "(vif_type (vif_mem s vif) \<noteq> NL80211_IFTYPE_STATION \<longrightarrow>
      rsi_mac80211_add_interface fw vif s = (- EOPNOTSUPP, s)) \<and>
   (vif_type (vif_mem s vif) = NL80211_IFTYPE_STATION \<and> sc_nvifs s \<noteq> 0 \<longrightarrow>
      rsi_mac80211_add_interface fw vif s = (- EOPNOTSUPP, s)) \<and>
   (fst (rsi_mac80211_add_interface fw vif s) = 0 \<or>
    vifs (snd (rsi_mac80211_add_interface fw vif s)) \<noteq> vifs s \<or>
    sc_nvifs (snd (rsi_mac80211_add_interface fw vif s)) \<noteq> sc_nvifs s \<longrightarrow>
      vif_type (vif_mem s vif) = NL80211_IFTYPE_STATION \<and> sc_nvifs s = 0) \<and>
   (vif_type (vif_mem s vif) = NL80211_IFTYPE_STATION \<and> sc_nvifs s = 0 \<longrightarrow>
      fst (rsi_mac80211_add_interface fw vif s) =
        fw (cmd_log s) (Vap_Capabilities STA_OPMODE VAP_ADD) \<and>
      vifs (snd (rsi_mac80211_add_interface fw vif s)) = (vifs s)(0 := Some vif) \<and>
      sc_nvifs (snd (rsi_mac80211_add_interface fw vif s)) = 1)"
    by (cases "vif_type (vif_mem s vif)")
       (simp_all add: rsi_mac80211_add_interface_def helper_defs EOPNOTSUPP_def)
  have "rsi_mac80211_add_interface fw vif s = (- EOPNOTSUPP, s)"
    if "count_slot_agree s \<and> vifs s 0 \<noteq> None"
  proof -
    from that have "sc_nvifs s \<noteq> 0"
      by (auto simp: count_slot_agree_def)
    with main show ?thesis
      by (cases "vif_type (vif_mem s vif) = NL80211_IFTYPE_STATION") blast+
  qed
  with main show ?thesis
    by blast
qed

theorem add_interface_results_witness:
  "rsi_mac80211_add_interface fw_ok 1 (rsi_zero_state mem_ap) = (- 95, rsi_zero_state mem_ap) \<and>
   fst (rsi_mac80211_add_interface fw_ok 1 (rsi_zero_state mem_two)) = 0 \<and>
   vifs (one_sta_state True 1) 0 = Some 1 \<and>
   sc_nvifs (one_sta_state True 1) = 1 \<and>
   count_slot_agree (one_sta_state True 1) \<and>
   rsi_mac80211_add_interface fw_ok 2 (one_sta_state True 1) = (- 95, one_sta_state True 1)"
  using add_interface_results [of "rsi_zero_state mem_ap" 1 fw_ok]
    add_interface_results [of "rsi_zero_state mem_two" 1 fw_ok]
    add_interface_results [of "rsi_zero_state (\<lambda>_. sta_vif True 1)" 1 fw_ok]
    add_interface_results [of "one_sta_state True 1" 2 fw_ok]
  by (simp add: input_defs EOPNOTSUPP_def rsi_mac80211_add_interface_def helper_defs
      count_slot_agree_def)

text \<open>
  An interface that is stored while nothing is counted does not make the addition fail:
  after the interface at address 1 was added and a different station interface removed,
  address 1 is still in slot 0, and adding the interface at address 2 returns 0 and
  takes the slot.
\<close>
theorem add_interface_overwrites_stored:
  "rsi_mac80211_remove_interface fw_ok 2
     (snd (rsi_mac80211_add_interface fw_ok 1 (rsi_zero_state mem_two))) = Inr orphan_state \<and>
   vifs orphan_state 0 = Some 1 \<and>
   vif_type (vif_mem orphan_state 1) = NL80211_IFTYPE_STATION \<and>
   fst (rsi_mac80211_add_interface fw_ok 2 orphan_state) = 0 \<and>
   vifs (snd (rsi_mac80211_add_interface fw_ok 2 orphan_state)) 0 = Some 2"
  by (simp add: input_defs rsi_mac80211_add_interface_def rsi_mac80211_remove_interface_def
      helper_defs)

section \<open>The interface count\<close>

lemma count_slot_agree_count: "count_slot_agree s \<Longrightarrow> sc_nvifs s \<in> {0, 1}"
  by (auto simp: count_slot_agree_def split: option.splits)

lemma frame_agree: "iface_frame s s' \<Longrightarrow> count_slot_agree s \<Longrightarrow> count_slot_agree s'"
  by (auto simp: iface_frame_def count_slot_agree_def split: option.splits)

lemma add_interface_agree:
  "count_slot_agree s \<Longrightarrow> count_slot_agree (snd (rsi_mac80211_add_interface fw vif s))"
  by (cases "vif_type (vif_mem s vif)")
     (auto simp: rsi_mac80211_add_interface_def rsi_set_vap_capabilities_def fw_send_def
       count_slot_agree_def split: option.splits)

lemma remove_interface_agree:
  assumes "count_slot_agree s" and "vifs s 0 = Some vif"
    and "rsi_mac80211_remove_interface fw vif s = Inr s'"
  shows "count_slot_agree s'"
  using assms
  by (auto simp: rsi_mac80211_remove_interface_def rsi_set_vap_capabilities_def fw_send_def
      count_slot_agree_def Let_def split: option.splits if_splits)

lemma ctl_step_agree:
  assumes "count_slot_agree s" and "ctl_step fw rc op s = Inr s'"
    and "case op of Remove_Interface vif \<Rightarrow> vifs s 0 = Some vif | _ \<Rightarrow> True"
  shows "count_slot_agree s'"
proof -
  consider (add) vif where "op = Add_Interface vif"
    | (remove) vif where "op = Remove_Interface vif"
    | (other) "case op of Add_Interface v \<Rightarrow> False | Remove_Interface v \<Rightarrow> False | _ \<Rightarrow> True"
    by (cases op) auto
  then show ?thesis
  proof cases
    case add
    with assms add_interface_agree [of s fw vif] show ?thesis by auto
  next
    case remove
    with assms remove_interface_agree [of s vif fw s'] show ?thesis by auto
  next
    case other
    from ctl_step_frame [OF assms(2) other] assms(1) show ?thesis
      by (rule frame_agree)
  qed
qed

text \<open>
  C4, as amended: start from a state where the interface count and the interface slot
  agree, as after attach. Along every run of control-plane operations in which each
  \<^verbatim>\<open>remove_interface\<close> is called with the interface stored at that moment, count and slot
  still agree at the end, and the count is in \<open>{0, 1}\<close>. The arguments of
  \<^verbatim>\<open>add_interface\<close> and of every other operation are arbitrary, and so is the order.
\<close>
theorem iface_count_stored_removals:
  assumes "count_slot_agree s" and "removes_stored fw rc ops s"
    and "ctl_run fw rc ops s = Inr s'"
  shows "sc_nvifs s' \<in> {0, 1} \<and> count_slot_agree s'"
  using assms
proof (induction ops arbitrary: s)
  case Nil
  then show ?case by (auto dest: count_slot_agree_count)
next
  case (Cons op ops)
  from Cons.prems(3) obtain s1 where step: "ctl_step fw rc op s = Inr s1"
    and run: "ctl_run fw rc ops s1 = Inr s'"
    by (auto split: sum.splits)
  from Cons.prems(2) step have stored: "removes_stored fw rc ops s1"
    and arg: "case op of Remove_Interface vif \<Rightarrow> vifs s 0 = Some vif | _ \<Rightarrow> True"
    by simp_all
  from ctl_step_agree [OF Cons.prems(1) step arg] have "count_slot_agree s1" .
  from Cons.IH [OF this stored run] show ?case .
qed

theorem iface_count_stored_removals_witness:
  "count_slot_agree (rsi_zero_state mem_two) \<and>
   removes_stored fw_ok consts0
     [Add_Interface 1, Add_Interface 2, Remove_Interface 1, Add_Interface 2]
     (rsi_zero_state mem_two) \<and>
   stored_vif (ctl_run fw_ok consts0
     [Add_Interface 1, Add_Interface 2, Remove_Interface 1, Add_Interface 2]
     (rsi_zero_state mem_two)) = Inr (Some 2) \<and>
   (\<exists>s'. ctl_run fw_ok consts0
            [Add_Interface 1, Add_Interface 2, Remove_Interface 1, Add_Interface 2]
            (rsi_zero_state mem_two) = Inr s' \<and>
         sc_nvifs s' \<in> {0, 1} \<and> count_slot_agree s')"
proof -
  let ?s = "rsi_zero_state mem_two"
  let ?ops = "[Add_Interface 1, Add_Interface 2, Remove_Interface 1, Add_Interface 2]"
  have a: "count_slot_agree ?s"
    by (simp add: rsi_zero_state_def count_slot_agree_def)
  have b: "removes_stored fw_ok consts0 ?ops ?s"
    by (simp add: input_defs rsi_mac80211_add_interface_def rsi_mac80211_remove_interface_def
        helper_defs)
  have d: "stored_vif (ctl_run fw_ok consts0 ?ops ?s) = Inr (Some 2)"
    by (simp add: input_defs rsi_mac80211_add_interface_def rsi_mac80211_remove_interface_def
        helper_defs)
  obtain s' where c: "ctl_run fw_ok consts0 ?ops ?s = Inr s'"
    by (simp add: input_defs rsi_mac80211_add_interface_def rsi_mac80211_remove_interface_def
        helper_defs)
  from iface_count_stored_removals [OF a b c] a b c d show ?thesis
    by blast
qed

text \<open>
  The count leaves \<open>{0, 1}\<close> when a station interface that is not the stored one is
  removed twice after one addition: the second removal finds the count at 0 and takes
  it to \<open>-1\<close>.
\<close>
theorem iface_count_unpaired_remove:
  "map_sum id sc_nvifs
     (ctl_run fw_ok consts0 [Add_Interface 1, Remove_Interface 2, Remove_Interface 2]
        (rsi_zero_state mem_two)) = Inr (- 1)"
  by (simp add: input_defs rsi_mac80211_add_interface_def rsi_mac80211_remove_interface_def
      helper_defs)

section \<open>Power configuration\<close>

text \<open>
  C2, as amended: \<^verbatim>\<open>rsi_config_power\<close> returns \<open>-EINVAL\<close> with the state unchanged when
  no interface is counted, and returns 0 with the state unchanged, issuing no command,
  when the requested level equals the cached one. Otherwise the requested level is
  cached first, one radio-parameter-update command is issued and its status, success or
  failure, is the result: after a failed command the cache holds the requested level,
  not the previous one. A configure call with the power flag and without the channel
  flag is exactly this operation.
\<close>
theorem config_power_cases:
  "(sc_nvifs s \<le> 0 \<longrightarrow> rsi_config_power fw conf s = (- EINVAL, s)) \<and>
   (0 < sc_nvifs s \<and> power_level conf = tx_power s \<longrightarrow>
      rsi_config_power fw conf s = (0, s)) \<and>
   (0 < sc_nvifs s \<and> power_level conf \<noteq> tx_power s \<longrightarrow>
      rsi_config_power fw conf s =
        (fw (cmd_log s) (Radio_Params_Update (power_level conf)),
         s\<lparr>tx_power := power_level conf,
           cmd_log := cmd_log s @ [Radio_Params_Update (power_level conf)]\<rparr>)) \<and>
   (IEEE80211_CONF_CHANGE_CHANNEL \<notin> changed \<and> IEEE80211_CONF_CHANGE_POWER \<in> changed \<longrightarrow>
      rsi_mac80211_config fw conf changed s = Inr (rsi_config_power fw conf s))"
  by (simp add: rsi_config_power_def rsi_mac80211_config_def helper_defs)

theorem config_power_cases_witness:
  "rsi_config_power fw_ok (hw_conf 20 1) (rsi_zero_state mem_two) = (- 22, rsi_zero_state mem_two) \<and>
   rsi_config_power fw_fail (hw_conf 0 1) (one_sta_state True 1) = (0, one_sta_state True 1) \<and>
   fst (rsi_config_power fw_ok (hw_conf 20 1) (one_sta_state True 1)) = 0 \<and>
   tx_power (snd (rsi_config_power fw_ok (hw_conf 20 1) (one_sta_state True 1))) = 20 \<and>
   cmd_log (snd (rsi_config_power fw_ok (hw_conf 20 1) (one_sta_state True 1))) =
     [Vap_Capabilities STA_OPMODE VAP_ADD, Radio_Params_Update 20] \<and>
   rsi_mac80211_config fw_ok (hw_conf 20 1) {IEEE80211_CONF_CHANGE_POWER} (one_sta_state True 1) =
     Inr (rsi_config_power fw_ok (hw_conf 20 1) (one_sta_state True 1))"
  using config_power_cases [of "rsi_zero_state mem_two" fw_ok "hw_conf 20 1" "{}"]
    config_power_cases [of "one_sta_state True 1" fw_fail "hw_conf 0 1" "{}"]
    config_power_cases [of "one_sta_state True 1" fw_ok "hw_conf 20 1" "{IEEE80211_CONF_CHANGE_POWER}"]
  by (simp add: input_defs EINVAL_def rsi_mac80211_add_interface_def helper_defs)

text \<open>
  A rejected radio-parameter update: the failure \<open>-1\<close> is returned, and the cached level
  has moved from 0 to the requested 20.
\<close>
theorem config_power_failure_caches_level:
  "fst (rsi_config_power fw_fail (hw_conf 20 1) (one_sta_state True 1)) = - 1 \<and>
   tx_power (one_sta_state True 1) = 0 \<and>
   tx_power (snd (rsi_config_power fw_fail (hw_conf 20 1) (one_sta_state True 1))) = 20"
  by (simp add: input_defs rsi_config_power_def rsi_mac80211_add_interface_def helper_defs)

section \<open>Queue parameters\<close>

lemma u16_from_unat: "unat q = n \<Longrightarrow> q = (word_of_nat n :: u16)"
  by (drule arg_cong [where f = "word_of_nat :: nat \<Rightarrow> u16"]) simp

lemma u16_less_4: "queue < 4 \<longleftrightarrow> queue \<in> {0, 1, 2, 3}" for queue :: u16
proof
  assume "queue < 4"
  then have "unat queue < 4" by (simp add: word_less_nat_alt)
  then have "unat queue = 0 \<or> unat queue = 1 \<or> unat queue = 2 \<or> unat queue = 3"
    by arith
  then have "queue = 0 \<or> queue = 1 \<or> queue = 2 \<or> queue = 3"
    by (auto dest!: u16_from_unat)
  then show "queue \<in> {0, 1, 2, 3}" by simp
next
  assume "queue \<in> {0, 1, 2, 3}"
  then show "queue < 4" by auto
qed

lemmas ac_defs = IEEE80211_NUM_ACS_def IEEE80211_AC_VO_def IEEE80211_AC_VI_def
  IEEE80211_AC_BE_def IEEE80211_AC_BK_def

text \<open>
  C6, as amended: \<^verbatim>\<open>conf_tx\<close> with a queue index of \<^verbatim>\<open>IEEE80211_NUM_ACS\<close> or more
  returns 0 and leaves the state unchanged; the indices below it are exactly the four
  access categories. For each of the four it returns 0 and stores the parameter set
  verbatim in that category's own slot: voice in \<open>VO_Q\<close>, video in \<open>VI_Q\<close>, best effort
  in \<open>BE_Q\<close> and background in \<open>BK_Q\<close>. No other slot is written.
\<close>
theorem conf_tx_slots:
  "(IEEE80211_NUM_ACS \<le> queue \<longrightarrow> rsi_mac80211_conf_tx rc queue params s = (0, s)) \<and>
   (queue < IEEE80211_NUM_ACS \<longleftrightarrow>
      queue \<in> {IEEE80211_AC_VO, IEEE80211_AC_VI, IEEE80211_AC_BE, IEEE80211_AC_BK}) \<and>
   rsi_mac80211_conf_tx rc IEEE80211_AC_VO params s =
     (0, s\<lparr>edca_params := (edca_params s)(VO_Q rc := params)\<rparr>) \<and>
   rsi_mac80211_conf_tx rc IEEE80211_AC_VI params s =
     (0, s\<lparr>edca_params := (edca_params s)(VI_Q rc := params)\<rparr>) \<and>
   rsi_mac80211_conf_tx rc IEEE80211_AC_BE params s =
     (0, s\<lparr>edca_params := (edca_params s)(BE_Q rc := params)\<rparr>) \<and>
   rsi_mac80211_conf_tx rc IEEE80211_AC_BK params s =
     (0, s\<lparr>edca_params := (edca_params s)(BK_Q rc := params)\<rparr>)"
proof -
  have "queue < IEEE80211_NUM_ACS \<longleftrightarrow>
      queue \<in> {IEEE80211_AC_VO, IEEE80211_AC_VI, IEEE80211_AC_BE, IEEE80211_AC_BK}"
    unfolding ac_defs by (rule u16_less_4)
  moreover have "IEEE80211_NUM_ACS \<le> queue \<longrightarrow> rsi_mac80211_conf_tx rc queue params s = (0, s)"
    by (simp add: rsi_mac80211_conf_tx_def)
  moreover have "rsi_mac80211_conf_tx rc IEEE80211_AC_VO params s =
     (0, s\<lparr>edca_params := (edca_params s)(VO_Q rc := params)\<rparr>)"
    by (simp add: rsi_mac80211_conf_tx_def conf_tx_idx_def ac_defs word_le_nat_alt)
  moreover have "rsi_mac80211_conf_tx rc IEEE80211_AC_VI params s =
     (0, s\<lparr>edca_params := (edca_params s)(VI_Q rc := params)\<rparr>)"
    by (simp add: rsi_mac80211_conf_tx_def conf_tx_idx_def ac_defs word_le_nat_alt)
  moreover have "rsi_mac80211_conf_tx rc IEEE80211_AC_BE params s =
     (0, s\<lparr>edca_params := (edca_params s)(BE_Q rc := params)\<rparr>)"
    by (simp add: rsi_mac80211_conf_tx_def conf_tx_idx_def ac_defs word_le_nat_alt)
  moreover have "rsi_mac80211_conf_tx rc IEEE80211_AC_BK params s =
     (0, s\<lparr>edca_params := (edca_params s)(BK_Q rc := params)\<rparr>)"
    by (simp add: rsi_mac80211_conf_tx_def conf_tx_idx_def ac_defs word_le_nat_alt)
  ultimately show ?thesis by blast
qed

theorem conf_tx_slots_witness:
  "rsi_mac80211_conf_tx consts0 7 edca1 (one_sta_state True 1) = (0, one_sta_state True 1) \<and>
   edca_params (snd (rsi_mac80211_conf_tx consts0 3 edca1 (one_sta_state True 1))) 0 = edca1"
  using conf_tx_slots [of 7 consts0 edca1 "one_sta_state True 1"]
  by (simp add: ac_defs consts0_def word_le_nat_alt)

text \<open>
  With the queue numbering \<open>consts0\<close>, where \<open>BK_Q\<close> and \<open>BE_Q\<close> differ, parameters
  configured for background are in the background slot and not in the best-effort slot.
\<close>
theorem conf_tx_background_slot:
  "edca_params (snd (rsi_mac80211_conf_tx consts0 IEEE80211_AC_BK edca1 (one_sta_state True 1)))
     (BE_Q consts0) \<noteq> edca1 \<and>
   edca_params (snd (rsi_mac80211_conf_tx consts0 IEEE80211_AC_BK edca1 (one_sta_state True 1)))
     (BK_Q consts0) = edca1"
  by (simp add: rsi_mac80211_conf_tx_def conf_tx_idx_def ac_defs word_le_nat_alt
        input_defs rsi_mac80211_add_interface_def helper_defs)

section \<open>The key life cycle\<close>

lemma set_key_SET:
  assumes "rsi_hal_key_config fw kc (s\<lparr>secinfo := (secinfo s)\<lparr>security_enable := True\<rparr>\<rparr>) = (st, s2)"
  shows "rsi_mac80211_set_key fw rc SET_KEY kc s =
    (if st \<noteq> 0 then (st, s2, kc)
     else (st,
           (if IEEE80211_KEY_FLAG_PAIRWISE \<in> flags kc
            then s2\<lparr>secinfo := (secinfo s2)\<lparr>ptk_cipher := cipher kc\<rparr>\<rparr>
            else s2\<lparr>secinfo := (secinfo s2)\<lparr>gtk_cipher := cipher kc\<rparr>\<rparr>),
           kc\<lparr>hw_key_idx := keyidx kc,
              flags := insert IEEE80211_KEY_FLAG_GENERATE_IV (flags kc)\<rparr>))"
  using assms by (simp add: rsi_mac80211_set_key_def)

lemma set_key_DISABLE:
  assumes "rsi_hal_key_config fw (memset_key_conf rc kc)
             (s\<lparr>secinfo := (secinfo s)\<lparr>security_enable := False\<rparr>\<rparr>) = (st, s2)"
  shows "rsi_mac80211_set_key fw rc DISABLE_KEY kc s = (st, s2, memset_key_conf rc kc)"
  using assms by (simp add: rsi_mac80211_set_key_def)

text \<open>
  C1, as amended: a \<^verbatim>\<open>set_key(SET)\<close> with the pairwise flag that returns 0 leaves
  \<open>security_enable\<close> true and the cached pairwise cipher equal to the key's cipher, the
  group cipher as it was. A \<^verbatim>\<open>set_key(DISABLE)\<close>, whatever it returns, leaves
  \<open>security_enable\<close> false and both cached ciphers as they were. The cached ciphers are
  set to 0 by \<^verbatim>\<open>sta_remove\<close>, which leaves \<open>security_enable\<close> as it was.
\<close>
theorem key_life_cycle:
  "(IEEE80211_KEY_FLAG_PAIRWISE \<in> flags kc \<and> fst (rsi_mac80211_set_key fw rc SET_KEY kc s) = 0 \<longrightarrow>
      secinfo (fst (snd (rsi_mac80211_set_key fw rc SET_KEY kc s))) =
        (secinfo s)\<lparr>security_enable := True, ptk_cipher := cipher kc\<rparr>) \<and>
   secinfo (fst (snd (rsi_mac80211_set_key fw rc DISABLE_KEY kc s))) =
     (secinfo s)\<lparr>security_enable := False\<rparr> \<and>
   secinfo (snd (rsi_mac80211_sta_remove fw s)) =
     (secinfo s)\<lparr>ptk_cipher := 0, gtk_cipher := 0\<rparr>"
proof -
  obtain st s2 where set:
    "rsi_hal_key_config fw kc (s\<lparr>secinfo := (secinfo s)\<lparr>security_enable := True\<rparr>\<rparr>) = (st, s2)"
    by (cases "rsi_hal_key_config fw kc (s\<lparr>secinfo := (secinfo s)\<lparr>security_enable := True\<rparr>\<rparr>)")
  obtain st' s2' where dis:
    "rsi_hal_key_config fw (memset_key_conf rc kc)
       (s\<lparr>secinfo := (secinfo s)\<lparr>security_enable := False\<rparr>\<rparr>) = (st', s2')"
    by (cases "rsi_hal_key_config fw (memset_key_conf rc kc)
       (s\<lparr>secinfo := (secinfo s)\<lparr>security_enable := False\<rparr>\<rparr>)")
  have "IEEE80211_KEY_FLAG_PAIRWISE \<in> flags kc \<and> fst (rsi_mac80211_set_key fw rc SET_KEY kc s) = 0 \<longrightarrow>
      secinfo (fst (snd (rsi_mac80211_set_key fw rc SET_KEY kc s))) =
        (secinfo s)\<lparr>security_enable := True, ptk_cipher := cipher kc\<rparr>"
    using hal_key_config_secinfo [OF set] by (simp add: set_key_SET [OF set])
  moreover have "secinfo (fst (snd (rsi_mac80211_set_key fw rc DISABLE_KEY kc s))) =
     (secinfo s)\<lparr>security_enable := False\<rparr>"
    using hal_key_config_secinfo [OF dis] by (simp add: set_key_DISABLE [OF dis])
  moreover have "secinfo (snd (rsi_mac80211_sta_remove fw s)) =
     (secinfo s)\<lparr>ptk_cipher := 0, gtk_cipher := 0\<rparr>"
    by (simp add: rsi_mac80211_sta_remove_def rsi_send_rx_filter_frame_def fw_send_def)
  ultimately show ?thesis by blast
qed

lemmas key_eval = rsi_mac80211_set_key_def rsi_hal_key_config_def memset_key_conf_def
  WLAN_CIPHER_SUITE_WEP40_def WLAN_CIPHER_SUITE_WEP104_def rsi_mac80211_add_interface_def
  rsi_mac80211_sta_remove_def

theorem key_life_cycle_witness:
  "IEEE80211_KEY_FLAG_PAIRWISE \<in> flags ccmp_key \<and>
   fst (rsi_mac80211_set_key fw_ok consts0 SET_KEY ccmp_key (one_sta_state True 1)) = 0 \<and>
   secinfo keyed_state = \<lparr>security_enable = True, ptk_cipher = 0x000FAC04, gtk_cipher = 0\<rparr> \<and>
   secinfo (fst (snd (rsi_mac80211_set_key fw_ok consts0 DISABLE_KEY keyed_key keyed_state))) =
     \<lparr>security_enable = False, ptk_cipher = 0x000FAC04, gtk_cipher = 0\<rparr> \<and>
   secinfo (snd (rsi_mac80211_sta_remove fw_ok keyed_state)) =
     \<lparr>security_enable = True, ptk_cipher = 0, gtk_cipher = 0\<rparr>"
proof -
  have a: "IEEE80211_KEY_FLAG_PAIRWISE \<in> flags ccmp_key"
    by (simp add: ccmp_key_def)
  have b: "fst (rsi_mac80211_set_key fw_ok consts0 SET_KEY ccmp_key (one_sta_state True 1)) = 0"
    by (simp add: input_defs key_eval helper_defs)
  have c: "secinfo (one_sta_state True 1) =
      \<lparr>security_enable = False, ptk_cipher = 0, gtk_cipher = 0\<rparr>"
    by (simp add: input_defs key_eval helper_defs)
  have d: "cipher ccmp_key = 0x000FAC04"
    by (simp add: ccmp_key_def)
  from key_life_cycle [of ccmp_key fw_ok consts0 "one_sta_state True 1"] a b c d
  have e: "secinfo keyed_state =
      \<lparr>security_enable = True, ptk_cipher = 0x000FAC04, gtk_cipher = 0\<rparr>"
    by (simp add: keyed_state_def)
  from key_life_cycle [of keyed_key fw_ok consts0 keyed_state] e a b show ?thesis
    by simp
qed

text \<open>
  After a CCMP pairwise key was set and then disabled, both with success, the cached
  pairwise cipher is still the CCMP suite.
\<close>
theorem disable_key_keeps_ciphers:
  "fst (rsi_mac80211_set_key fw_ok consts0 SET_KEY ccmp_key (one_sta_state True 1)) = 0 \<and>
   fst (rsi_mac80211_set_key fw_ok consts0 DISABLE_KEY keyed_key keyed_state) = 0 \<and>
   ptk_cipher (secinfo (fst (snd (rsi_mac80211_set_key fw_ok consts0 DISABLE_KEY keyed_key keyed_state)))) =
     0x000FAC04"
  by (simp add: input_defs key_eval helper_defs)

text \<open>
  C7, as amended: when the key push of a \<^verbatim>\<open>set_key(SET)\<close> fails, the push's status is
  returned, both cached ciphers keep their values and the key structure is not written
  to; \<open>security_enable\<close> is true afterwards, whatever it was before, because it is set
  before the push.
\<close>
theorem set_key_push_failure:
  assumes "fst (rsi_hal_key_config fw kc
                  (s\<lparr>secinfo := (secinfo s)\<lparr>security_enable := True\<rparr>\<rparr>)) \<noteq> 0"
  shows "fst (rsi_mac80211_set_key fw rc SET_KEY kc s) =
           fst (rsi_hal_key_config fw kc (s\<lparr>secinfo := (secinfo s)\<lparr>security_enable := True\<rparr>\<rparr>)) \<and>
         secinfo (fst (snd (rsi_mac80211_set_key fw rc SET_KEY kc s))) =
           (secinfo s)\<lparr>security_enable := True\<rparr> \<and>
         snd (snd (rsi_mac80211_set_key fw rc SET_KEY kc s)) = kc"
proof -
  obtain st s2 where set:
    "rsi_hal_key_config fw kc (s\<lparr>secinfo := (secinfo s)\<lparr>security_enable := True\<rparr>\<rparr>) = (st, s2)"
    by (cases "rsi_hal_key_config fw kc (s\<lparr>secinfo := (secinfo s)\<lparr>security_enable := True\<rparr>\<rparr>)")
  from assms have "st \<noteq> 0"
    by (simp add: set)
  with hal_key_config_secinfo [OF set] show ?thesis
    by (simp add: set_key_SET [OF set] set)
qed

theorem set_key_push_failure_witness:
  "fst (rsi_hal_key_config fw_fail ccmp_key
          (keyed_state\<lparr>secinfo := (secinfo keyed_state)\<lparr>security_enable := True\<rparr>\<rparr>)) = - 1 \<and>
   fst (rsi_mac80211_set_key fw_fail consts0 SET_KEY ccmp_key keyed_state) = - 1 \<and>
   secinfo (fst (snd (rsi_mac80211_set_key fw_fail consts0 SET_KEY ccmp_key keyed_state))) =
     \<lparr>security_enable = True, ptk_cipher = 0x000FAC04, gtk_cipher = 0\<rparr> \<and>
   snd (snd (rsi_mac80211_set_key fw_fail consts0 SET_KEY ccmp_key keyed_state)) = ccmp_key"
proof -
  have a: "fst (rsi_hal_key_config fw_fail ccmp_key
          (keyed_state\<lparr>secinfo := (secinfo keyed_state)\<lparr>security_enable := True\<rparr>\<rparr>)) = - 1"
    by (simp add: input_defs key_eval helper_defs)
  have b: "secinfo keyed_state =
      \<lparr>security_enable = True, ptk_cipher = 0x000FAC04, gtk_cipher = 0\<rparr>"
    by (simp add: input_defs key_eval helper_defs)
  from a have "fst (rsi_hal_key_config fw_fail ccmp_key
          (keyed_state\<lparr>secinfo := (secinfo keyed_state)\<lparr>security_enable := True\<rparr>\<rparr>)) \<noteq> 0"
    by simp
  from set_key_push_failure [OF this, where rc = consts0] a b show ?thesis
    by simp
qed

text \<open>
  A failed push on a device without security: the call returns \<open>-1\<close> and
  \<open>security_enable\<close> has gone from false to true.
\<close>
theorem set_key_failure_enables_security:
  "fst (rsi_mac80211_set_key fw_fail consts0 SET_KEY ccmp_key (one_sta_state True 1)) = - 1 \<and>
   \<not> security_enable (secinfo (one_sta_state True 1)) \<and>
   security_enable
     (secinfo (fst (snd (rsi_mac80211_set_key fw_fail consts0 SET_KEY ccmp_key (one_sta_state True 1)))))"
  by (simp add: input_defs key_eval helper_defs)

section \<open>Aggregation sessions\<close>

lemma vif_slot_found:
  "vif_slot vs vif k r < k + r \<Longrightarrow> vs (vif_slot vs vif k r) = Some vif"
proof (induction r arbitrary: k)
  case 0
  then show ?case by simp
next
  case (Suc r)
  show ?case
  proof (cases "vs k = Some vif")
    case True
    then show ?thesis by simp
  next
    case False
    with Suc.prems have "vif_slot vs vif (Suc k) r < Suc k + r" by simp
    from Suc.IH [OF this] False show ?thesis by simp
  qed
qed

lemma vif_slot_first:
  "k \<le> i \<Longrightarrow> i < k + r \<Longrightarrow> vs i = Some vif \<Longrightarrow>
   (\<forall>j. k \<le> j \<and> j < i \<longrightarrow> vs j \<noteq> Some vif) \<Longrightarrow> vif_slot vs vif k r = i"
proof (induction r arbitrary: k)
  case 0
  then show ?case by simp
next
  case (Suc r)
  show ?case
  proof (cases "vs k = Some vif")
    case True
    with Suc.prems have "k = i"
      by (metis le_neq_implies_less order_refl)
    with True show ?thesis by simp
  next
    case False
    with Suc.prems have "k \<noteq> i" by auto
    with Suc.prems have a: "Suc k \<le> i" "i < Suc k + r" by simp_all
    from Suc.prems have "\<forall>j. Suc k \<le> j \<and> j < i \<longrightarrow> vs j \<noteq> Some vif" by simp
    from Suc.IH [OF a Suc.prems(3) this] False show ?thesis by simp
  qed
qed

lemma vif_slot_none:
  "(\<forall>j. k \<le> j \<and> j < k + r \<longrightarrow> vs j \<noteq> Some vif) \<Longrightarrow> vif_slot vs vif k r = k + r"
proof (induction r arbitrary: k)
  case 0
  then show ?case by simp
next
  case (Suc r)
  then have "vs k \<noteq> Some vif" by simp
  moreover from Suc.prems have "\<forall>j. Suc k \<le> j \<and> j < Suc k + r \<longrightarrow> vs j \<noteq> Some vif"
    by simp
  ultimately show ?case using Suc.IH [of "Suc k"] by simp
qed

lemma vif_in_slot_eq:
  "vif_in_slot rc s vif i \<Longrightarrow> vif_slot (vifs s) vif 0 (RSI_MAX_VIFS rc) = i"
  using vif_slot_first [of 0 i "RSI_MAX_VIFS rc" "vifs s" vif]
  by (simp add: vif_in_slot_def)

lemma ampdu_tx_start:
  assumes "vif_in_slot rc s vif i" and "action p = IEEE80211_AMPDU_TX_START"
  shows "rsi_mac80211_ampdu_action fw rc vif p s =
    Inr (0, notify (Start_Tx_Ba_Cb vif (sta_addr p) (tid p))
              (s\<lparr>vif_info := (vif_info s)(i := (vif_info s i)\<lparr>seq_start := ssn p\<rparr>)\<rparr>))"
proof -
  from assms(1) have "i < RSI_MAX_VIFS rc" by (simp add: vif_in_slot_def)
  with assms(2) vif_in_slot_eq [OF assms(1)] show ?thesis
    by (simp add: rsi_mac80211_ampdu_action_def Let_def)
qed

lemma ampdu_tx_operational:
  assumes "vif_in_slot rc s vif i" and "action p = IEEE80211_AMPDU_TX_OPERATIONAL"
  shows "rsi_mac80211_ampdu_action fw rc vif p s =
    Inr (fw (cmd_log s)
           (Aggregation_Params (tid p) (seq_start (vif_info s i)) (buf_size p) STA_TX_ADDBA_DONE),
         s\<lparr>cmd_log := cmd_log s @
              [Aggregation_Params (tid p) (seq_start (vif_info s i)) (buf_size p)
                 STA_TX_ADDBA_DONE]\<rparr>)"
proof -
  from assms(1) have "i < RSI_MAX_VIFS rc" by (simp add: vif_in_slot_def)
  with assms(2) vif_in_slot_eq [OF assms(1)] show ?thesis
    by (simp add: rsi_mac80211_ampdu_action_def Let_def rsi_send_aggregation_params_frame_def
        fw_send_def)
qed

text \<open>
  For an interface in no slot the search ends at the number of slots, and the two
  actions that use the record access it past the last entry.
\<close>
lemma ampdu_no_slot:
  assumes "\<forall>j<RSI_MAX_VIFS rc. vifs s j \<noteq> Some vif"
    and "action p = IEEE80211_AMPDU_TX_START \<or> action p = IEEE80211_AMPDU_TX_OPERATIONAL"
  shows "rsi_mac80211_ampdu_action fw rc vif p s = Inl Out_Of_Bounds"
proof -
  from assms(1) have "vif_slot (vifs s) vif 0 (RSI_MAX_VIFS rc) = 0 + RSI_MAX_VIFS rc"
    by (intro vif_slot_none) simp
  with assms(2) show ?thesis
    by (auto simp: rsi_mac80211_ampdu_action_def Let_def)
qed

lemma ampdu_action_keeps_record:
  assumes "rsi_mac80211_ampdu_action fw rc v q s = Inr r"
    and "action q \<noteq> IEEE80211_AMPDU_TX_START \<or> v \<noteq> vif"
    and "vif_in_slot rc s vif i"
  shows "vif_info (snd r) i = vif_info s i"
proof (cases "action q = IEEE80211_AMPDU_TX_START")
  case False
  with assms(1) show ?thesis
    by (cases "action q") (auto simp: ampdu_eval split: if_splits)
next
  case True
  let ?jj = "vif_slot (vifs s) v 0 (RSI_MAX_VIFS rc)"
  from True assms(1) have lt: "?jj < RSI_MAX_VIFS rc"
    and r: "vif_info (snd r) = (vif_info s)(?jj := (vif_info s ?jj)\<lparr>seq_start := ssn q\<rparr>)"
    by (auto simp: ampdu_eval split: if_splits)
  from lt vif_slot_found [of "vifs s" v 0 "RSI_MAX_VIFS rc"] have "vifs s ?jj = Some v"
    by simp
  moreover from assms(3) have "vifs s i = Some vif"
    by (simp add: vif_in_slot_def)
  moreover from True assms(2) have "v \<noteq> vif" by simp
  ultimately have "?jj \<noteq> i" by auto
  with r show ?thesis by simp
qed

lemma ctl_step_keeps_record:
  assumes "ctl_step fw rc op s = Inr s'" and "keeps_seq_start vif op"
    and "vif_in_slot rc s vif i"
  shows "vif_in_slot rc s' vif i \<and> vif_info s' i = vif_info s i"
proof -
  from assms(2)
  have "case op of Add_Interface v \<Rightarrow> False | Remove_Interface v \<Rightarrow> False | _ \<Rightarrow> True"
    by (cases op) simp_all
  from ctl_step_frame [OF assms(1) this] assms(3) have slot: "vif_in_slot rc s' vif i"
    by (simp add: iface_frame_def vif_in_slot_def)
  have "vif_info s' i = vif_info s i"
  proof (cases op)
    case Start
    with assms(1) start_stop_frame(2) [where s = s and fw = fw] show ?thesis by simp
  next
    case Stop
    with assms(1) start_stop_frame(4) [where s = s and fw = fw] show ?thesis by simp
  next
    case (Config conf changed)
    with assms(1) config_frame [where fw = fw and conf = conf and changed = changed and s = s]
    show ?thesis
      by (auto split: sum.splits)
  next
    case (Bss_Info_Changed b ch)
    with assms(1)
      bss_info_changed_frame(2) [where s = s and fw = fw and rc = rc and b = b and ch = ch]
    show ?thesis by simp
  next
    case (Conf_Tx q p)
    with assms(1) conf_tx_frame(2) [where s = s and rc = rc and q = q and p = p]
    show ?thesis by simp
  next
    case (Set_Key cmd kc)
    with assms(1) set_key_frame [where s = s and fw = fw and rc = rc and cmd = cmd and kc = kc]
    show ?thesis by simp
  next
    case (Ampdu_Action v q)
    with assms obtain r where "rsi_mac80211_ampdu_action fw rc v q s = Inr r" "s' = snd r"
      by (auto split: sum.splits)
    with Ampdu_Action assms(2) ampdu_action_keeps_record [of fw rc v q s r vif i] assms(3)
    show ?thesis by simp
  next
    case (Beacon_Rssi rssi)
    with assms(1) perform_cqm_frame(2) [where s = s and rssi = rssi] show ?thesis by simp
  qed (use assms(2) in simp_all)
  with slot show ?thesis ..
qed

lemma ctl_run_keeps_record:
  assumes "\<forall>op \<in> set ops. keeps_seq_start vif op" and "ctl_run fw rc ops s = Inr s'"
    and "vif_in_slot rc s vif i"
  shows "vif_in_slot rc s' vif i \<and> vif_info s' i = vif_info s i"
  using assms
proof (induction ops arbitrary: s)
  case Nil
  then show ?case by simp
next
  case (Cons op ops)
  from Cons.prems(2) obtain s1 where step: "ctl_step fw rc op s = Inr s1"
    and run: "ctl_run fw rc ops s1 = Inr s'"
    by (auto split: sum.splits)
  from Cons.prems(1) have keep: "keeps_seq_start vif op"
    and rest: "\<forall>op \<in> set ops. keeps_seq_start vif op"
    by simp_all
  from ctl_step_keeps_record [OF step keep Cons.prems(3)]
  have s1: "vif_in_slot rc s1 vif i" "vif_info s1 i = vif_info s i"
    by simp_all
  from Cons.IH [OF rest run s1(1)] s1(2) show ?case by simp
qed

text \<open>
  C9, as amended: for an interface that is stored, with \<open>i\<close> the first slot storing it,
  \<^verbatim>\<open>ampdu_action(TX_START)\<close> returns 0, issues no firmware command and records the
  supplied starting sequence number in entry \<open>i\<close> of the per-interface records, and
  \<^verbatim>\<open>TX_OPERATIONAL\<close> issues exactly one add-block-ack (TX direction, done) command
  carrying the sequence number in entry \<open>i\<close>. After a \<^verbatim>\<open>TX_START\<close> on the interface, a
  \<^verbatim>\<open>TX_OPERATIONAL\<close> on it carries the sequence number of that \<^verbatim>\<open>TX_START\<close>, whatever
  the traffic identifiers, across every run of operations in between that contains no
  further \<^verbatim>\<open>TX_START\<close> on the interface, no \<^verbatim>\<open>sta_remove\<close> and no addition or removal
  of an interface.
\<close>
theorem ampdu_tx_seq_start:
  "(vif_in_slot rc s vif i \<and> action p = IEEE80211_AMPDU_TX_START \<longrightarrow>
      rsi_mac80211_ampdu_action fw rc vif p s =
        Inr (0, notify (Start_Tx_Ba_Cb vif (sta_addr p) (tid p))
                  (s\<lparr>vif_info := (vif_info s)(i := (vif_info s i)\<lparr>seq_start := ssn p\<rparr>)\<rparr>))) \<and>
   (vif_in_slot rc s vif i \<and> action p = IEEE80211_AMPDU_TX_OPERATIONAL \<longrightarrow>
      rsi_mac80211_ampdu_action fw rc vif p s =
        Inr (fw (cmd_log s)
               (Aggregation_Params (tid p) (seq_start (vif_info s i)) (buf_size p)
                  STA_TX_ADDBA_DONE),
             s\<lparr>cmd_log := cmd_log s @
                  [Aggregation_Params (tid p) (seq_start (vif_info s i)) (buf_size p)
                     STA_TX_ADDBA_DONE]\<rparr>)) \<and>
   (vif_in_slot rc s vif i \<and> action p = IEEE80211_AMPDU_TX_START \<and>
    (\<forall>op \<in> set ops. keeps_seq_start vif op) \<and>
    ctl_run fw rc (Ampdu_Action vif p # ops) s = Inr s2 \<and>
    action p' = IEEE80211_AMPDU_TX_OPERATIONAL \<longrightarrow>
      rsi_mac80211_ampdu_action fw rc vif p' s2 =
        Inr (fw (cmd_log s2)
               (Aggregation_Params (tid p') (ssn p) (buf_size p') STA_TX_ADDBA_DONE),
             s2\<lparr>cmd_log := cmd_log s2 @
                   [Aggregation_Params (tid p') (ssn p) (buf_size p') STA_TX_ADDBA_DONE]\<rparr>))"
proof (intro conjI impI)
  assume "vif_in_slot rc s vif i \<and> action p = IEEE80211_AMPDU_TX_START"
  then show "rsi_mac80211_ampdu_action fw rc vif p s =
        Inr (0, notify (Start_Tx_Ba_Cb vif (sta_addr p) (tid p))
                  (s\<lparr>vif_info := (vif_info s)(i := (vif_info s i)\<lparr>seq_start := ssn p\<rparr>)\<rparr>))"
    by (simp add: ampdu_tx_start)
next
  assume "vif_in_slot rc s vif i \<and> action p = IEEE80211_AMPDU_TX_OPERATIONAL"
  then show "rsi_mac80211_ampdu_action fw rc vif p s =
        Inr (fw (cmd_log s)
               (Aggregation_Params (tid p) (seq_start (vif_info s i)) (buf_size p)
                  STA_TX_ADDBA_DONE),
             s\<lparr>cmd_log := cmd_log s @
                  [Aggregation_Params (tid p) (seq_start (vif_info s i)) (buf_size p)
                     STA_TX_ADDBA_DONE]\<rparr>)"
    by (simp add: ampdu_tx_operational)
next
  let ?s1 = "notify (Start_Tx_Ba_Cb vif (sta_addr p) (tid p))
               (s\<lparr>vif_info := (vif_info s)(i := (vif_info s i)\<lparr>seq_start := ssn p\<rparr>)\<rparr>)"
  assume a: "vif_in_slot rc s vif i \<and> action p = IEEE80211_AMPDU_TX_START \<and>
    (\<forall>op \<in> set ops. keeps_seq_start vif op) \<and>
    ctl_run fw rc (Ampdu_Action vif p # ops) s = Inr s2 \<and>
    action p' = IEEE80211_AMPDU_TX_OPERATIONAL"
  then have start: "rsi_mac80211_ampdu_action fw rc vif p s = Inr (0, ?s1)"
    by (simp add: ampdu_tx_start)
  with a have run: "ctl_run fw rc ops ?s1 = Inr s2"
    by simp
  from a have slot1: "vif_in_slot rc ?s1 vif i"
    by (simp add: vif_in_slot_def notify_def)
  have rec1: "seq_start (vif_info ?s1 i) = ssn p"
    by (simp add: notify_def)
  from a have keep: "\<forall>op \<in> set ops. keeps_seq_start vif op" by simp
  from ctl_run_keeps_record [OF keep run slot1] rec1
  have "vif_in_slot rc s2 vif i" "seq_start (vif_info s2 i) = ssn p"
    by simp_all
  with a ampdu_tx_operational [of rc s2 vif i p' fw]
  show "rsi_mac80211_ampdu_action fw rc vif p' s2 =
        Inr (fw (cmd_log s2)
               (Aggregation_Params (tid p') (ssn p) (buf_size p') STA_TX_ADDBA_DONE),
             s2\<lparr>cmd_log := cmd_log s2 @
                   [Aggregation_Params (tid p') (ssn p) (buf_size p') STA_TX_ADDBA_DONE]\<rparr>)"
    by simp
qed

lemmas run_eval = input_defs ampdu_eval rsi_mac80211_add_interface_def helper_defs
  rsi_perform_cqm_def rsi_mac80211_sta_remove_def numeral_2_eq_2

theorem ampdu_tx_seq_start_witness:
  "vif_in_slot consts0 (one_sta_state True 1) 1 0 \<and>
   (\<exists>s2. ctl_run fw_ok consts0
            [Ampdu_Action 1 (ampdu_params IEEE80211_AMPDU_TX_START 5 100),
             Ampdu_Action 1 (ampdu_params IEEE80211_AMPDU_TX_STOP_CONT 5 0),
             Beacon_Rssi (- 60)] (one_sta_state True 1) = Inr s2 \<and>
          map_sum id (cmd_log \<circ> snd)
            (rsi_mac80211_ampdu_action fw_ok consts0 1
               (ampdu_params IEEE80211_AMPDU_TX_OPERATIONAL 5 0) s2) =
          Inr [Vap_Capabilities STA_OPMODE VAP_ADD, Aggregation_Params 5 0 64 STA_TX_DELBA,
               Aggregation_Params 5 100 64 STA_TX_ADDBA_DONE]) \<and>
   vif_in_slot consts2 two_slot_state 2 1 \<and>
   (\<exists>s2. ctl_run fw_ok consts2
            [Ampdu_Action 2 (ampdu_params IEEE80211_AMPDU_TX_START 5 100),
             Ampdu_Action 1 (ampdu_params IEEE80211_AMPDU_TX_START 3 7)] two_slot_state = Inr s2 \<and>
          map_sum id (cmd_log \<circ> snd)
            (rsi_mac80211_ampdu_action fw_ok consts2 2
               (ampdu_params IEEE80211_AMPDU_TX_OPERATIONAL 5 0) s2) =
          Inr [Vap_Capabilities STA_OPMODE VAP_ADD,
               Aggregation_Params 5 100 64 STA_TX_ADDBA_DONE])"
proof -
  let ?start = "ampdu_params IEEE80211_AMPDU_TX_START 5 100"
  let ?oper = "ampdu_params IEEE80211_AMPDU_TX_OPERATIONAL 5 0"
  let ?ops1 = "[Ampdu_Action 1 (ampdu_params IEEE80211_AMPDU_TX_STOP_CONT 5 0),
                Beacon_Rssi (- 60)]"
  let ?ops2 = "[Ampdu_Action 1 (ampdu_params IEEE80211_AMPDU_TX_START 3 7)]"
  have act: "action ?start = IEEE80211_AMPDU_TX_START"
    "action ?oper = IEEE80211_AMPDU_TX_OPERATIONAL"
    "ssn ?start = 100" "tid ?oper = 5" "buf_size ?oper = 64"
    by (simp_all add: ampdu_params_def)
  have slot1: "vif_in_slot consts0 (one_sta_state True 1) 1 0"
    by (simp add: vif_in_slot_def run_eval)
  have keep1: "\<forall>op \<in> set ?ops1. keeps_seq_start 1 op"
    by (simp add: ampdu_params_def)
  obtain s2 where run1: "ctl_run fw_ok consts0 (Ampdu_Action 1 ?start # ?ops1)
      (one_sta_state True 1) = Inr s2"
    and log1: "cmd_log s2 =
      [Vap_Capabilities STA_OPMODE VAP_ADD, Aggregation_Params 5 0 64 STA_TX_DELBA]"
    by (simp add: run_eval)
  from ampdu_tx_seq_start [where rc = consts0 and s = "one_sta_state True 1" and vif = 1
      and i = 0 and p = ?start and ops = ?ops1 and fw = fw_ok and ?s2.0 = s2 and p' = ?oper]
    slot1 keep1 run1 act log1
  have res1: "map_sum id (cmd_log \<circ> snd)
      (rsi_mac80211_ampdu_action fw_ok consts0 1 ?oper s2) =
      Inr [Vap_Capabilities STA_OPMODE VAP_ADD, Aggregation_Params 5 0 64 STA_TX_DELBA,
           Aggregation_Params 5 100 64 STA_TX_ADDBA_DONE]"
    by simp
  have slot2: "vif_in_slot consts2 two_slot_state 2 1"
    by (simp add: vif_in_slot_def run_eval)
  have keep2: "\<forall>op \<in> set ?ops2. keeps_seq_start 2 op"
    by simp
  obtain s3 where run2: "ctl_run fw_ok consts2 (Ampdu_Action 2 ?start # ?ops2)
      two_slot_state = Inr s3"
    and log2: "cmd_log s3 = [Vap_Capabilities STA_OPMODE VAP_ADD]"
    by (simp add: run_eval)
  from ampdu_tx_seq_start [where rc = consts2 and s = two_slot_state and vif = 2
      and i = 1 and p = ?start and ops = ?ops2 and fw = fw_ok and ?s2.0 = s3 and p' = ?oper]
    slot2 keep2 run2 act log2
  have res2: "map_sum id (cmd_log \<circ> snd)
      (rsi_mac80211_ampdu_action fw_ok consts2 2 ?oper s3) =
      Inr [Vap_Capabilities STA_OPMODE VAP_ADD, Aggregation_Params 5 100 64 STA_TX_ADDBA_DONE]"
    by simp
  from slot1 run1 res1 slot2 run2 res2 show ?thesis
    by blast
qed

text \<open>
  A station removal between the two actions: the \<^verbatim>\<open>TX_OPERATIONAL\<close> after
  \<^verbatim>\<open>TX_START\<close> with sequence number 100 and \<^verbatim>\<open>sta_remove\<close> carries sequence number 0.
\<close>
theorem ampdu_sta_remove_resets_seq_start:
  "map_sum id cmd_log
     (ctl_run fw_ok consts0
        [Ampdu_Action 1 (ampdu_params IEEE80211_AMPDU_TX_START 5 100),
         Sta_Remove,
         Ampdu_Action 1 (ampdu_params IEEE80211_AMPDU_TX_OPERATIONAL 5 0)]
        (one_sta_state True 1)) =
   Inr [Vap_Capabilities STA_OPMODE VAP_ADD, Rx_Filter 0,
        Aggregation_Params 5 0 64 STA_TX_ADDBA_DONE]"
  by (simp add: run_eval)

section \<open>The connection-quality monitor\<close>

lemmas cqm_eval = rsi_perform_cqm_def Let_def rsi_mac80211_bss_info_changed_def
  rsi_mac80211_add_interface_def

text \<open>
  C10: a cached last-reported value of 0 stands for "no report yet". Whenever it is 0,
  a reading below the threshold is reported as low and a reading above it as high,
  whatever the hysteresis, and the reading becomes the cached value. A change of the
  monitor's parameters sets the cached value to 0, and so does a report of signal 0.
\<close>
theorem cqm_zero_last_event:
  "(last_cqm_event_rssi (cqm_info s) = 0 \<and> sint rssi < sint (rssi_thold (cqm_info s)) \<longrightarrow>
      rsi_perform_cqm rssi s =
        notify (Cqm_Rssi_Notify (vifs s 0) NL80211_CQM_RSSI_THRESHOLD_EVENT_LOW rssi)
          (s\<lparr>cqm_info := (cqm_info s)\<lparr>last_cqm_event_rssi := rssi\<rparr>\<rparr>)) \<and>
   (last_cqm_event_rssi (cqm_info s) = 0 \<and> sint (rssi_thold (cqm_info s)) < sint rssi \<longrightarrow>
      rsi_perform_cqm rssi s =
        notify (Cqm_Rssi_Notify (vifs s 0) NL80211_CQM_RSSI_THRESHOLD_EVENT_HIGH rssi)
          (s\<lparr>cqm_info := (cqm_info s)\<lparr>last_cqm_event_rssi := rssi\<rparr>\<rparr>)) \<and>
   (BSS_CHANGED_CQM \<in> changed \<longrightarrow>
      last_cqm_event_rssi
        (cqm_info (rsi_mac80211_bss_info_changed fw rc bss_conf changed s)) = 0)"
  by (simp add: rsi_perform_cqm_def Let_def rsi_mac80211_bss_info_changed_def)

theorem cqm_zero_last_event_witness:
  "last_cqm_event_rssi (cqm_info (cqm_state (- 70) 100)) = 0 \<and>
   upcalls (cqm_run [0, - 75] (cqm_state (- 70) 100)) =
     [Cqm_Rssi_Notify (Some 1) NL80211_CQM_RSSI_THRESHOLD_EVENT_HIGH 0,
      Cqm_Rssi_Notify (Some 1) NL80211_CQM_RSSI_THRESHOLD_EVENT_LOW (- 75)]"
proof -
  let ?s = "cqm_state (- 70) 100"
  have "BSS_CHANGED_CQM \<in> {BSS_CHANGED_CQM}"
    by simp
  with cqm_zero_last_event [where changed = "{BSS_CHANGED_CQM}" and fw = fw_ok and rc = consts0
      and s = "one_sta_state True 1"]
  have z: "last_cqm_event_rssi (cqm_info ?s) = 0"
    by (simp add: cqm_state_def)
  have a: "rssi_thold (cqm_info ?s) = - 70" "vifs ?s 0 = Some 1" "upcalls ?s = []"
    by (simp_all add: input_defs cqm_eval helper_defs)
  have b: "sint (- 70 :: s32) < sint (0 :: s8)" "sint (- 75 :: s8) < sint (- 70 :: s32)"
    by simp_all
  from cqm_zero_last_event [of ?s 0 "{}"] z a b
  have c: "rsi_perform_cqm 0 ?s =
      notify (Cqm_Rssi_Notify (Some 1) NL80211_CQM_RSSI_THRESHOLD_EVENT_HIGH 0)
        (?s\<lparr>cqm_info := (cqm_info ?s)\<lparr>last_cqm_event_rssi := 0\<rparr>\<rparr>)"
    by simp
  let ?t = "rsi_perform_cqm 0 ?s"
  from c z a have d: "last_cqm_event_rssi (cqm_info ?t) = 0" "rssi_thold (cqm_info ?t) = - 70"
    "vifs ?t 0 = Some 1"
    "upcalls ?t = [Cqm_Rssi_Notify (Some 1) NL80211_CQM_RSSI_THRESHOLD_EVENT_HIGH 0]"
    by (simp_all add: notify_def)
  from cqm_zero_last_event [of ?t "- 75" "{}"] d b
  have "rsi_perform_cqm (- 75) ?t =
      notify (Cqm_Rssi_Notify (Some 1) NL80211_CQM_RSSI_THRESHOLD_EVENT_LOW (- 75))
        (?t\<lparr>cqm_info := (cqm_info ?t)\<lparr>last_cqm_event_rssi := - 75\<rparr>\<rparr>)"
    by simp
  with d z show ?thesis
    by (simp add: notify_def)
qed

text \<open>
  The readings of the specification's example, with threshold \<open>-70\<close> and hysteresis 5:
  two events, high at \<open>-60\<close> and low at \<open>-75\<close>, and none at \<open>-72\<close> or \<open>-80\<close>.
\<close>
lemma cqm_spec_sequence:
  "upcalls (cqm_run [- 60, - 75, - 72, - 80] (cqm_state (- 70) 5)) =
     [Cqm_Rssi_Notify (Some 1) NL80211_CQM_RSSI_THRESHOLD_EVENT_HIGH (- 60),
      Cqm_Rssi_Notify (Some 1) NL80211_CQM_RSSI_THRESHOLD_EVENT_LOW (- 75)]"
  by (simp add: input_defs cqm_eval helper_defs)

text \<open>Reading the converted operands of the hysteresis comparisons as integers.\<close>
lemma uint_scast_s8:
  fixes x :: s8
  shows "uint (scast x :: u32) = (if sint x < 0 then 4294967296 + sint x else sint x)"
proof -
  have lo: "- 128 \<le> sint x" using sint_ge [of x] by simp
  have hi: "sint x < 128" using sint_lt [of x] by simp
  have "uint (scast x :: u32) = sint x mod 2 ^ LENGTH(32)"
    by (subst scast_eq) (rule uint_word_of_int)
  then have eq: "uint (scast x :: u32) = sint x mod 4294967296"
    by simp
  show ?thesis
  proof (cases "sint x < 0")
    case True
    have "sint x mod 4294967296 = (sint x + 4294967296) mod 4294967296" by simp
    also from lo True have "\<dots> = sint x + 4294967296"
      by (intro mod_pos_pos_trivial) arith+
    finally show ?thesis using True eq by simp
  next
    case False
    with hi have "sint x mod 4294967296 = sint x"
      by (intro mod_pos_pos_trivial) arith+
    with False eq show ?thesis by simp
  qed
qed

lemma cqm_low_test:
  fixes rssi last_event :: s8 and hyst :: u32
  assumes "sint rssi < 0" "sint last_event < 0" "uint hyst < - sint last_event"
  shows "((scast rssi :: u32) < scast last_event - hyst) \<longleftrightarrow>
         sint rssi < sint last_event - uint hyst"
proof -
  have lo: "- 128 \<le> sint last_event" using sint_ge [of last_event] by simp
  have h0: "0 \<le> uint hyst" by simp
  have "uint (scast last_event - hyst) = (uint (scast last_event :: u32) - uint hyst) mod 4294967296"
    by (simp add: uint_word_ariths)
  also have "\<dots> = (4294967296 + sint last_event - uint hyst) mod 4294967296"
    using assms by (simp add: uint_scast_s8)
  also have "\<dots> = 4294967296 + sint last_event - uint hyst"
    using lo assms h0 by (intro mod_pos_pos_trivial) arith+
  finally have "uint (scast last_event - hyst) = 4294967296 + sint last_event - uint hyst" .
  with assms show ?thesis
    by (simp add: word_less_def uint_scast_s8)
qed

lemma cqm_high_test:
  fixes rssi last_event :: s8 and hyst :: u32
  assumes "sint rssi < 0" "sint last_event < 0" "uint hyst < - sint last_event"
  shows "((scast rssi :: u32) > scast last_event + hyst) \<longleftrightarrow>
         sint rssi > sint last_event + uint hyst"
proof -
  have lo: "- 128 \<le> sint last_event" using sint_ge [of last_event] by simp
  have h0: "0 \<le> uint hyst" by simp
  have "uint (scast last_event + hyst) = (uint (scast last_event :: u32) + uint hyst) mod 4294967296"
    by (simp add: uint_word_ariths)
  also have "\<dots> = (4294967296 + sint last_event + uint hyst) mod 4294967296"
    using assms by (simp add: uint_scast_s8)
  also have "\<dots> = 4294967296 + sint last_event + uint hyst"
    using lo assms h0 by (intro mod_pos_pos_trivial) arith+
  finally have "uint (scast last_event + hyst) = 4294967296 + sint last_event + uint hyst" .
  with assms show ?thesis
    by (simp add: word_less_def uint_scast_s8)
qed


text \<open>
  Where nothing wraps around, the monitor follows the rule on integers: when there is no
  report yet, or when the reading and the last report are negative and the hysteresis is
  smaller than the magnitude of the last report.
\<close>
lemma cqm_agrees_without_wrap:
  assumes "last_cqm_event_rssi (cqm_info s) = 0 \<or>
           (sint rssi < 0 \<and> sint (last_cqm_event_rssi (cqm_info s)) < 0 \<and>
            uint (rssi_hyst (cqm_info s)) < - sint (last_cqm_event_rssi (cqm_info s)))"
  shows "rsi_perform_cqm rssi s =
     (case cqm_rule (sint rssi) (sint (last_cqm_event_rssi (cqm_info s)))
             (sint (rssi_thold (cqm_info s))) (uint (rssi_hyst (cqm_info s))) of
        None \<Rightarrow> s
      | Some event \<Rightarrow>
          notify (Cqm_Rssi_Notify (vifs s 0) event rssi)
            (s\<lparr>cqm_info := (cqm_info s)\<lparr>last_cqm_event_rssi := rssi\<rparr>\<rparr>))"
  using assms
proof
  assume "last_cqm_event_rssi (cqm_info s) = 0"
  then show ?thesis
    by (simp add: rsi_perform_cqm_def cqm_rule_def Let_def)
next
  assume a: "sint rssi < 0 \<and> sint (last_cqm_event_rssi (cqm_info s)) < 0 \<and>
            uint (rssi_hyst (cqm_info s)) < - sint (last_cqm_event_rssi (cqm_info s))"
  then have "last_cqm_event_rssi (cqm_info s) \<noteq> 0" by auto
  with a show ?thesis
    by (simp add: rsi_perform_cqm_def cqm_rule_def Let_def cqm_low_test cqm_high_test)
qed

text \<open>
  C8: the monitor should report high only when the signal is above the threshold and,
  after a report, more than the hysteresis above the last report. With threshold
  \<open>-70\<close> and hysteresis 50, the reading \<open>-40\<close> is reported as high, and the next
  reading \<open>-60\<close> is reported as high again although it is below \<open>-40 + 50\<close>: the sum
  \<open>last_event + hyst\<close> is computed and compared as \<^verbatim>\<open>unsigned int\<close>, where \<open>-60\<close> is
  4294967236 and the sum is 10. The rule on integers reports nothing at \<open>-60\<close>.
\<close>
theorem cqm_unsigned_hysteresis:
  "upcalls (cqm_run [- 40, - 60] (cqm_state (- 70) 50)) =
     [Cqm_Rssi_Notify (Some 1) NL80211_CQM_RSSI_THRESHOLD_EVENT_HIGH (- 40),
      Cqm_Rssi_Notify (Some 1) NL80211_CQM_RSSI_THRESHOLD_EVENT_HIGH (- 60)] \<and>
   cqm_rule (- 40) 0 (- 70) 50 = Some NL80211_CQM_RSSI_THRESHOLD_EVENT_HIGH \<and>
   cqm_rule (- 60) (- 40) (- 70) 50 = None"
  by (simp add: input_defs cqm_eval helper_defs cqm_rule_def)

section \<open>Channel changes and the data queues\<close>

lemmas chan_eval = rsi_channel_change_def block_unblock_def rsi_get_connected_channel_def
  chan_cmds_def Let_def

text \<open>
  C3, as amended: a channel change with an interface stored returns, and
  \<^item> when associated, connected on another channel than the target and not blocked, the
    queue-block command is issued first, before the channel programming, and the queues
    are blocked at the end exactly when the firmware accepted that command;
  \<^item> when associated, connected on another channel and already blocked, no block or
    unblock command is issued and the queues stay blocked;
  \<^item> when associated and connected on the target channel, or when not associated, blocked
    queues get an unblock command after the channel programming, and are unblocked at the
    end exactly when the firmware accepted it; queues that are not blocked stay so and
    get no command.
  The channel programming is the band check and, when it passes, the channel-set command.
\<close>
theorem channel_change_queue_blocking:
  assumes "vifs s 0 = Some p"
  shows "\<exists>status s'. rsi_channel_change fw conf s = Inr (status, s') \<and>
     (bss_assoc (vif_mem s p) \<and>
      bss_chan_hw_value (vif_mem s p) \<noteq> hw_value (chandef_chan conf) \<and>
      \<not> hw_data_qs_blocked s \<longrightarrow>
        cmd_log s' =
          cmd_log s @ Block_Unblock True # chan_cmds fw conf (cmd_log s @ [Block_Unblock True]) \<and>
        hw_data_qs_blocked s' = (fw (cmd_log s) (Block_Unblock True) = 0)) \<and>
     (bss_assoc (vif_mem s p) \<and>
      bss_chan_hw_value (vif_mem s p) \<noteq> hw_value (chandef_chan conf) \<and>
      hw_data_qs_blocked s \<longrightarrow>
        cmd_log s' = cmd_log s @ chan_cmds fw conf (cmd_log s) \<and> hw_data_qs_blocked s') \<and>
     (bss_assoc (vif_mem s p) \<and>
      bss_chan_hw_value (vif_mem s p) = hw_value (chandef_chan conf) \<and>
      \<not> hw_data_qs_blocked s \<longrightarrow>
        cmd_log s' = cmd_log s @ chan_cmds fw conf (cmd_log s) \<and> \<not> hw_data_qs_blocked s') \<and>
     ((\<not> bss_assoc (vif_mem s p) \<or>
       bss_chan_hw_value (vif_mem s p) = hw_value (chandef_chan conf)) \<and>
      hw_data_qs_blocked s \<longrightarrow>
        cmd_log s' = cmd_log s @ chan_cmds fw conf (cmd_log s) @ [Block_Unblock False] \<and>
        hw_data_qs_blocked s' =
          (fw (cmd_log s @ chan_cmds fw conf (cmd_log s)) (Block_Unblock False) \<noteq> 0)) \<and>
     (\<not> bss_assoc (vif_mem s p) \<and> \<not> hw_data_qs_blocked s \<longrightarrow>
        cmd_log s' = cmd_log s @ chan_cmds fw conf (cmd_log s) \<and> \<not> hw_data_qs_blocked s')"
  using assms by (simp add: chan_eval helper_defs split: prod.splits)


theorem channel_change_queue_blocking_witness:
  "vifs (one_sta_state True 1) 0 = Some 1 \<and>
   (\<exists>status s'. rsi_channel_change fw_ok (hw_conf 0 6) (one_sta_state True 1) = Inr (status, s') \<and>
      cmd_log s' = [Vap_Capabilities STA_OPMODE VAP_ADD, Block_Unblock True, Band_Check,
                    Set_Channel (chandef_chan (hw_conf 0 6))] \<and>
      hw_data_qs_blocked s') \<and>
   vifs (blocked_state True 1) 0 = Some 1 \<and>
   (\<exists>status s'. rsi_channel_change fw_ok (hw_conf 0 1) (blocked_state True 1) = Inr (status, s') \<and>
      cmd_log s' = [Vap_Capabilities STA_OPMODE VAP_ADD, Band_Check,
                    Set_Channel (chandef_chan (hw_conf 0 1)), Block_Unblock False] \<and>
      \<not> hw_data_qs_blocked s')"
proof -
  have a: "vifs (one_sta_state True 1) 0 = Some 1" "vifs (blocked_state True 1) 0 = Some 1"
    by (simp_all add: input_defs rsi_mac80211_add_interface_def helper_defs)
  have b: "bss_assoc (vif_mem (one_sta_state True 1) 1)"
    "bss_chan_hw_value (vif_mem (one_sta_state True 1) 1) = 1"
    "\<not> hw_data_qs_blocked (one_sta_state True 1)"
    "cmd_log (one_sta_state True 1) = [Vap_Capabilities STA_OPMODE VAP_ADD]"
    by (simp_all add: input_defs rsi_mac80211_add_interface_def helper_defs)
  have c: "bss_assoc (vif_mem (blocked_state True 1) 1)"
    "bss_chan_hw_value (vif_mem (blocked_state True 1) 1) = 1"
    "hw_data_qs_blocked (blocked_state True 1)"
    "cmd_log (blocked_state True 1) = [Vap_Capabilities STA_OPMODE VAP_ADD]"
    by (simp_all add: input_defs rsi_mac80211_add_interface_def helper_defs)
  have d: "hw_value (chandef_chan (hw_conf 0 6)) = 6" "hw_value (chandef_chan (hw_conf 0 1)) = 1"
    by (simp_all add: hw_conf_def)
  from channel_change_queue_blocking [OF a(1), of fw_ok "hw_conf 0 6"] b d
  have e: "\<exists>status s'. rsi_channel_change fw_ok (hw_conf 0 6) (one_sta_state True 1) = Inr (status, s') \<and>
      cmd_log s' = [Vap_Capabilities STA_OPMODE VAP_ADD, Block_Unblock True, Band_Check,
                    Set_Channel (chandef_chan (hw_conf 0 6))] \<and>
      hw_data_qs_blocked s'"
    by (simp add: chan_cmds_def fw_ok_def)
  from channel_change_queue_blocking [OF a(2), of fw_ok "hw_conf 0 1"] c d
  have "\<exists>status s'. rsi_channel_change fw_ok (hw_conf 0 1) (blocked_state True 1) = Inr (status, s') \<and>
      cmd_log s' = [Vap_Capabilities STA_OPMODE VAP_ADD, Band_Check,
                    Set_Channel (chandef_chan (hw_conf 0 1)), Block_Unblock False] \<and>
      \<not> hw_data_qs_blocked s'"
    by (simp add: chan_cmds_def fw_ok_def)
  with a e show ?thesis by blast
qed

text \<open>
  An associated station connected on channel 1 switches to channel 6 while the firmware
  rejects the queue-block command: the change succeeds and the queues are not blocked
  at its end.
\<close>
theorem channel_change_block_rejected:
  "bss_assoc (vif_mem (one_sta_state True 1) 1) \<and>
   rsi_get_connected_channel (one_sta_state True 1) = 1 \<and>
   \<not> hw_data_qs_blocked (one_sta_state True 1) \<and>
   map_sum id fst
     (rsi_channel_change (fw_reject (Block_Unblock True)) (hw_conf 0 6) (one_sta_state True 1)) =
     Inr 0 \<and>
   map_sum id (hw_data_qs_blocked \<circ> snd)
     (rsi_channel_change (fw_reject (Block_Unblock True)) (hw_conf 0 6) (one_sta_state True 1)) =
     Inr False \<and>
   map_sum id (cmd_log \<circ> snd)
     (rsi_channel_change (fw_reject (Block_Unblock True)) (hw_conf 0 6) (one_sta_state True 1)) =
     Inr [Vap_Capabilities STA_OPMODE VAP_ADD, Block_Unblock True, Band_Check,
          Set_Channel (chandef_chan (hw_conf 0 6))]"
  by (simp add: input_defs rsi_mac80211_add_interface_def chan_eval helper_defs)

end
